theory Spec2Isabelle
  imports Complex_Main
begin

section \<open>JavaScript values and the coercions the controllers rely on\<close>

text \<open>
  The controllers read \<^verbatim>\<open>req.params.id\<close> (always a string) and fields of the JSON body
  (absent, \<^verbatim>\<open>null\<close>, a boolean, a number or a string). Numbers are kept as exact
  rationals together with the three non-finite values of the language; the rounding of
  doubles is not represented, and the two zeros are one. A string is a list of code units
  below 256. Arrays and objects as field values are not represented.
\<close>

datatype number = NaN | Num rat | PosInf | NegInf

datatype jsval = JUndefined | JNull | JBool bool | JNum number | JStr string

definition is_digit :: "char \<Rightarrow> bool" where
  "is_digit c = (c \<in> set ''0123456789'')"

definition digit_val :: "char \<Rightarrow> nat" where
  "digit_val c = of_char c - 48"

text \<open>Value of a digit string read left to right, starting from \<open>acc\<close>.\<close>

fun digits_val :: "nat \<Rightarrow> string \<Rightarrow> nat" where
  "digits_val acc [] = acc"
| "digits_val acc (c # cs) = digits_val (10 * acc + digit_val c) cs"

text \<open>
  White space and line terminators of the language that fit in one code unit:
  TAB, LF, VT, FF, CR, SP and NBSP.
\<close>

definition is_space :: "char \<Rightarrow> bool" where
  "is_space c = (c \<in> {CHR 0x09, CHR 0x0A, CHR 0x0B, CHR 0x0C, CHR 0x0D, CHR 0x20, CHR 0xA0})"

text \<open>\<^verbatim>\<open>String.prototype.trim\<close>.\<close>

definition trim :: "string \<Rightarrow> string" where
  "trim s = rev (dropWhile is_space (rev (dropWhile is_space s)))"

text \<open>
  The exponent part of a decimal literal, \<^verbatim>\<open>e\<close> or \<^verbatim>\<open>E\<close>, an optional sign, and at
  least one digit. Returns the exponent and the unread rest.
\<close>

definition scan_exponent :: "string \<Rightarrow> (int \<times> string) option" where
  "scan_exponent s =
     (case s of
        [] \<Rightarrow> None
      | c # t \<Rightarrow>
          if c = CHR ''e'' \<or> c = CHR ''E'' then
            (let (neg, u) = (case t of
                               [] \<Rightarrow> (False, t)
                             | d # v \<Rightarrow> if d = CHR ''-'' then (True, v)
                                        else if d = CHR ''+'' then (False, v)
                                        else (False, t));
                 ds = takeWhile is_digit u
             in if ds = [] then None
                else Some ((if neg then - int (digits_val 0 ds) else int (digits_val 0 ds)),
                           dropWhile is_digit u))
          else None)"

definition scale10 :: "rat \<Rightarrow> int \<Rightarrow> rat" where
  "scale10 m e = (if 0 \<le> e then m * 10 ^ nat e else m / 10 ^ nat (- e))"

text \<open>
  The longest prefix of \<open>s\<close> that is an unsigned decimal literal
  (digits, an optional fraction, an optional exponent; at least one digit before the
  exponent), with its value and the unread rest.
\<close>

definition scan_decimal :: "string \<Rightarrow> (rat \<times> string) option" where
  "scan_decimal s =
     (let ip = takeWhile is_digit s;
          r1 = dropWhile is_digit s;
          (fp, r2) = (case r1 of
                        [] \<Rightarrow> ([], r1)
                      | c # t \<Rightarrow> if c = CHR ''.''
                                 then (takeWhile is_digit t, dropWhile is_digit t)
                                 else ([], r1))
      in if ip = [] \<and> fp = [] then None
         else
           (let m = of_nat (digits_val 0 (ip @ fp)) / 10 ^ length fp
            in case scan_exponent r2 of
                 None \<Rightarrow> Some (m, r2)
               | Some (e, r3) \<Rightarrow> Some (scale10 m e, r3)))"

text \<open>Digit value in bases up to 16; 16 for a character that is no digit.\<close>

definition hex_val :: "char \<Rightarrow> nat" where
  "hex_val c =
     (if is_digit c then of_char c - 48
      else if c \<in> set ''abcdef'' then of_char c - 87
      else if c \<in> set ''ABCDEF'' then of_char c - 55
      else 16)"

fun radix_val :: "nat \<Rightarrow> nat \<Rightarrow> string \<Rightarrow> nat" where
  "radix_val b acc [] = acc"
| "radix_val b acc (c # cs) = radix_val b (b * acc + hex_val c) cs"

text \<open>The literals \<^verbatim>\<open>0x..\<close>, \<^verbatim>\<open>0o..\<close> and \<^verbatim>\<open>0b..\<close> (no sign, at least one digit).\<close>

definition scan_radix :: "string \<Rightarrow> nat option" where
  "scan_radix s =
     (case s of
        c0 # c1 # ds \<Rightarrow>
          (let b = (if c1 = CHR ''x'' \<or> c1 = CHR ''X'' then 16
                    else if c1 = CHR ''o'' \<or> c1 = CHR ''O'' then 8
                    else if c1 = CHR ''b'' \<or> c1 = CHR ''B'' then 2
                    else (0::nat))
           in if c0 = CHR ''0'' \<and> b \<noteq> 0 \<and> ds \<noteq> [] \<and> list_all (\<lambda>c. hex_val c < b) ds
              then Some (radix_val b 0 ds) else None)
      | _ \<Rightarrow> None)"

definition StrUnsignedDecimalLiteral :: "string \<Rightarrow> number" where
  "StrUnsignedDecimalLiteral r =
     (if r = ''Infinity'' then PosInf
      else case scan_decimal r of
             Some (v, rest) \<Rightarrow> if rest = [] then Num v else NaN
           | None \<Rightarrow> NaN)"

fun negate :: "number \<Rightarrow> number" where
  "negate NaN = NaN"
| "negate (Num q) = Num (- q)"
| "negate PosInf = NegInf"
| "negate NegInf = PosInf"

text \<open>\<^verbatim>\<open>Number(s)\<close> for a string: the language's StringToNumber.\<close>

definition StringToNumber :: "string \<Rightarrow> number" where
  "StringToNumber s =
     (let t = trim s
      in if t = [] then Num 0
         else case scan_radix t of
                Some n \<Rightarrow> Num (of_nat n)
              | None \<Rightarrow>
                  (case t of
                     [] \<Rightarrow> Num 0
                   | c # r \<Rightarrow>
                       if c = CHR ''+'' then StrUnsignedDecimalLiteral r
                       else if c = CHR ''-'' then negate (StrUnsignedDecimalLiteral r)
                       else StrUnsignedDecimalLiteral t))"

fun ToNumber :: "jsval \<Rightarrow> number" where
  "ToNumber JUndefined = NaN"
| "ToNumber JNull = Num 0"
| "ToNumber (JBool b) = (if b then Num 1 else Num 0)"
| "ToNumber (JNum n) = n"
| "ToNumber (JStr s) = StringToNumber s"

text \<open>The global \<^verbatim>\<open>isNaN(v)\<close>.\<close>

definition isNaN :: "jsval \<Rightarrow> bool" where
  "isNaN v = (ToNumber v = NaN)"

text \<open>ToBoolean: what \<^verbatim>\<open>!v\<close> and \<^verbatim>\<open>v && ...\<close> test.\<close>

fun truthy :: "jsval \<Rightarrow> bool" where
  "truthy JUndefined = False"
| "truthy JNull = False"
| "truthy (JBool b) = b"
| "truthy (JNum n) = (n \<noteq> NaN \<and> n \<noteq> Num 0)"
| "truthy (JStr s) = (s \<noteq> [])"

fun typeof_is_string :: "jsval \<Rightarrow> bool" where
  "typeof_is_string (JStr s) = True"
| "typeof_is_string v = False"

text \<open>\<^verbatim>\<open>v <= 0\<close>: the operand is converted to a number; a comparison with NaN is false.\<close>

definition le_zero :: "jsval \<Rightarrow> bool" where
  "le_zero v = (case ToNumber v of NaN \<Rightarrow> False | Num q \<Rightarrow> q \<le> 0 | PosInf \<Rightarrow> False | NegInf \<Rightarrow> True)"

text \<open>\<^verbatim>\<open>name.trim().length === 0\<close>, read only when \<open>name\<close> is a string.\<close>

fun trim_length_is_zero :: "jsval \<Rightarrow> bool" where
  "trim_length_is_zero (JStr s) = (length (trim s) = 0)"
| "trim_length_is_zero v = False"


section \<open>The persistence gateway\<close>

text \<open>
  Parameters of a statement are written as SQL literals: \<^verbatim>\<open>undefined\<close> and \<^verbatim>\<open>null\<close>
  as NULL, booleans as the integer constants 1 and 0, numbers and strings as themselves.
\<close>

datatype sqlval = SqlNull | SqlNum number | SqlStr string

fun escape :: "jsval \<Rightarrow> sqlval" where
  "escape JUndefined = SqlNull"
| "escape JNull = SqlNull"
| "escape (JBool b) = SqlNum (if b then Num 1 else Num 0)"
| "escape (JNum n) = SqlNum n"
| "escape (JStr s) = SqlStr s"

fun unescape :: "sqlval \<Rightarrow> jsval" where
  "unescape SqlNull = JNull"
| "unescape (SqlNum n) = JNum n"
| "unescape (SqlStr s) = JStr s"

definition is_space_sql :: "char \<Rightarrow> bool" where
  "is_space_sql c = (c \<in> {CHR 0x09, CHR 0x0A, CHR 0x0B, CHR 0x0C, CHR 0x0D, CHR 0x20})"

text \<open>
  The number the engine reads from a string in a numeric comparison: leading white space
  is skipped, the longest numeric prefix is read, anything after it is ignored, and a
  string with no numeric prefix reads as 0.
\<close>

definition sql_number_prefix :: "string \<Rightarrow> rat" where
  "sql_number_prefix r = (case scan_decimal r of Some (v, rest) \<Rightarrow> v | None \<Rightarrow> 0)"

definition sql_strtod :: "string \<Rightarrow> rat" where
  "sql_strtod s =
     (case dropWhile is_space_sql s of
        [] \<Rightarrow> 0
      | c # r \<Rightarrow>
          if c = CHR ''+'' then sql_number_prefix r
          else if c = CHR ''-'' then - sql_number_prefix r
          else sql_number_prefix (c # r))"

definition num_eq :: "number \<Rightarrow> number \<Rightarrow> bool" where
  "num_eq a b = (a \<noteq> NaN \<and> a = b)"

text \<open>
  The comparison \<^verbatim>\<open>column = ?\<close> of a WHERE clause. NULL equals nothing; two strings are
  compared as strings (exactly: collations are not represented); a number and a string
  are compared as numbers.
\<close>

fun sql_eq :: "sqlval \<Rightarrow> sqlval \<Rightarrow> bool" where
  "sql_eq SqlNull v = False"
| "sql_eq v SqlNull = False"
| "sql_eq (SqlStr a) (SqlStr b) = (a = b)"
| "sql_eq (SqlNum a) (SqlNum b) = num_eq a b"
| "sql_eq (SqlNum a) (SqlStr s) = num_eq a (Num (sql_strtod s))"
| "sql_eq (SqlStr s) (SqlNum b) = num_eq (Num (sql_strtod s)) b"

text \<open>
  A password hash is kept symbolic: the cost, the salt and the password it was computed
  from. Two hashes are equal exactly when these are, which idealises the hash function.
  The pass column of a user holds such a hash; register is its only writer. The name of a
  category is text: both statements that write it are sent past a string check.
\<close>

datatype pwhash = Bcrypt (cost: nat) (salt: string) (plaintext: string)

record user =
  user_id :: nat
  user_name :: sqlval
  user_email :: sqlval
  user_pass :: pwhash

record category =
  cat_id :: nat
  cat_name :: string

record product =
  prod_id :: nat
  prod_name :: sqlval
  prod_price :: sqlval
  prod_category_id :: sqlval

text \<open>
  The three tables, the counters of their auto-increment keys, whether the gateway
  answers (\<open>available\<close>), and how many statements have been sent to it (\<open>issued\<close>).
  A gateway that does not answer stands for every way a persistence call can fail (a lost
  connection, a statement the engine refuses); the handlers see a rejected promise.
  A cell holds the literal that was written; the engine's own conversions to a column
  type and its constraint checks are not represented.
\<close>

record store =
  available :: bool
  issued :: nat
  users :: "user list"
  next_user_id :: nat
  categories :: "category list"
  next_category_id :: nat
  products :: "product list"
  next_product_id :: nat

text \<open>
  \<^verbatim>\<open>await connection.promise().query(sql, params)\<close>: the statement is sent; if the gateway
  does not answer, the promise rejects (\<open>None\<close>), otherwise the statement runs.
\<close>

definition query :: "store \<Rightarrow> (store \<Rightarrow> 'a \<times> store) \<Rightarrow> 'a option \<times> store" where
  "query db stmt =
     (let db1 = db\<lparr>issued := Suc (issued db)\<rparr>
      in if available db then (case stmt db1 of (r, db2) \<Rightarrow> (Some r, db2))
         else (None, db1))"

definition id_matches :: "jsval \<Rightarrow> nat \<Rightarrow> bool" where
  "id_matches p i = sql_eq (SqlNum (Num (of_nat i))) (escape p)"

text \<open>\<^verbatim>\<open>SELECT * FROM users WHERE email = ?\<close>\<close>

definition select_users_by_email :: "jsval \<Rightarrow> store \<Rightarrow> user list \<times> store" where
  "select_users_by_email email db =
     (filter (\<lambda>u. sql_eq (user_email u) (escape email)) (users db), db)"

text \<open>\<^verbatim>\<open>INSERT INTO users (name, email, pass) VALUES (?, ?, ?)\<close>; the result is the insert id.\<close>

definition insert_user :: "jsval \<Rightarrow> jsval \<Rightarrow> pwhash \<Rightarrow> store \<Rightarrow> nat \<times> store" where
  "insert_user name email hashed db =
     (next_user_id db,
      db\<lparr>users := users db @
             [\<lparr>user_id = next_user_id db, user_name = escape name,
               user_email = escape email, user_pass = hashed\<rparr>],
         next_user_id := Suc (next_user_id db)\<rparr>)"

text \<open>\<^verbatim>\<open>SELECT * FROM categories\<close>\<close>

definition select_categories :: "store \<Rightarrow> category list \<times> store" where
  "select_categories db = (categories db, db)"

text \<open>\<^verbatim>\<open>SELECT * FROM categories WHERE id = ?\<close>\<close>

definition select_categories_by_id :: "jsval \<Rightarrow> store \<Rightarrow> category list \<times> store" where
  "select_categories_by_id p db = (filter (\<lambda>c. id_matches p (cat_id c)) (categories db), db)"

text \<open>\<^verbatim>\<open>SELECT * FROM categories WHERE name = ?\<close>\<close>

definition select_categories_by_name :: "jsval \<Rightarrow> store \<Rightarrow> category list \<times> store" where
  "select_categories_by_name p db =
     (filter (\<lambda>c. sql_eq (SqlStr (cat_name c)) (escape p)) (categories db), db)"

text \<open>
  Both statements that write a category name are sent past a check that the name is a
  string, and \<open>string_of\<close> reads that string.
\<close>

fun string_of :: "jsval \<Rightarrow> string" where
  "string_of (JStr s) = s"
| "string_of v = []"

text \<open>\<^verbatim>\<open>INSERT INTO categories (name) VALUES (?)\<close>\<close>

definition insert_category :: "string \<Rightarrow> store \<Rightarrow> nat \<times> store" where
  "insert_category name db =
     (next_category_id db,
      db\<lparr>categories := categories db @ [\<lparr>cat_id = next_category_id db, cat_name = name\<rparr>],
         next_category_id := Suc (next_category_id db)\<rparr>)"

text \<open>\<^verbatim>\<open>UPDATE categories SET name = ? WHERE id = ?\<close>; the result is \<^verbatim>\<open>affectedRows\<close>,
  the number of rows the WHERE clause found.\<close>

definition update_category :: "string \<Rightarrow> jsval \<Rightarrow> store \<Rightarrow> nat \<times> store" where
  "update_category name p db =
     (length (filter (\<lambda>c. id_matches p (cat_id c)) (categories db)),
      db\<lparr>categories :=
            map (\<lambda>c. if id_matches p (cat_id c) then c\<lparr>cat_name := name\<rparr> else c)
                (categories db)\<rparr>)"

text \<open>\<^verbatim>\<open>DELETE FROM categories WHERE id = ?\<close>\<close>

definition delete_category :: "jsval \<Rightarrow> store \<Rightarrow> nat \<times> store" where
  "delete_category p db =
     (length (filter (\<lambda>c. id_matches p (cat_id c)) (categories db)),
      db\<lparr>categories := filter (\<lambda>c. \<not> id_matches p (cat_id c)) (categories db)\<rparr>)"

text \<open>\<^verbatim>\<open>SELECT * FROM products\<close>\<close>

definition select_products :: "store \<Rightarrow> product list \<times> store" where
  "select_products db = (products db, db)"

text \<open>\<^verbatim>\<open>SELECT * FROM products WHERE id = ?\<close>\<close>

definition select_products_by_id :: "jsval \<Rightarrow> store \<Rightarrow> product list \<times> store" where
  "select_products_by_id p db = (filter (\<lambda>r. id_matches p (prod_id r)) (products db), db)"

text \<open>\<^verbatim>\<open>INSERT INTO products (name, price, category_id) VALUES (?, ?, ?)\<close>\<close>

definition insert_product :: "jsval \<Rightarrow> jsval \<Rightarrow> jsval \<Rightarrow> store \<Rightarrow> nat \<times> store" where
  "insert_product name price category_id db =
     (next_product_id db,
      db\<lparr>products := products db @
             [\<lparr>prod_id = next_product_id db, prod_name = escape name,
               prod_price = escape price, prod_category_id = escape category_id\<rparr>],
         next_product_id := Suc (next_product_id db)\<rparr>)"

text \<open>\<^verbatim>\<open>UPDATE products SET name = ?, price = ?, category_id = ? WHERE id = ?\<close>\<close>

definition update_product :: "jsval \<Rightarrow> jsval \<Rightarrow> jsval \<Rightarrow> jsval \<Rightarrow> store \<Rightarrow> nat \<times> store" where
  "update_product name price category_id p db =
     (length (filter (\<lambda>r. id_matches p (prod_id r)) (products db)),
      db\<lparr>products :=
            map (\<lambda>r. if id_matches p (prod_id r)
                     then r\<lparr>prod_name := escape name, prod_price := escape price,
                            prod_category_id := escape category_id\<rparr>
                     else r)
                (products db)\<rparr>)"

text \<open>\<^verbatim>\<open>DELETE FROM products WHERE id = ?\<close>\<close>

definition delete_product :: "jsval \<Rightarrow> store \<Rightarrow> nat \<times> store" where
  "delete_product p db =
     (length (filter (\<lambda>r. id_matches p (prod_id r)) (products db)),
      db\<lparr>products := filter (\<lambda>r. \<not> id_matches p (prod_id r)) (products db)\<rparr>)"


section \<open>Responses\<close>

datatype jwt = Jwt (token_id: nat) (token_iat: nat) (token_exp: nat) (token_key: string)

datatype body =
    Json "(string \<times> jsval) list"
  | JsonArray "(string \<times> jsval) list list"
  | LoginJson string jwt
  | NoBody

datatype response = Response (status: nat) (body: body)

text \<open>\<^verbatim>\<open>res.status(code).json({ error: msg })\<close>\<close>

definition error_response :: "nat \<Rightarrow> string \<Rightarrow> response" where
  "error_response code msg = Response code (Json [(''error'', JStr msg)])"

definition internal_server_error :: response where
  "internal_server_error = error_response 500 ''Internal server error''"

definition category_json :: "category \<Rightarrow> (string \<times> jsval) list" where
  "category_json c = [(''id'', JNum (Num (of_nat (cat_id c)))), (''name'', JStr (cat_name c))]"

definition product_json :: "product \<Rightarrow> (string \<times> jsval) list" where
  "product_json r =
     [(''id'', JNum (Num (of_nat (prod_id r)))), (''name'', unescape (prod_name r)),
      (''price'', unescape (prod_price r)), (''category_id'', unescape (prod_category_id r))]"

section \<open>Credentials\<close>

text \<open>
  \<^verbatim>\<open>bcrypt.hash(s, rounds)\<close> rejects unless \<open>s\<close> is a string; the salt it draws is an
  argument here. \<^verbatim>\<open>bcrypt.compare(s, hash)\<close> rejects unless \<open>s\<close> is a string, and
  otherwise hashes \<open>s\<close> with the salt and cost of \<open>hash\<close> and compares.
\<close>

fun bcrypt_hash :: "jsval \<Rightarrow> nat \<Rightarrow> string \<Rightarrow> pwhash option" where
  "bcrypt_hash (JStr s) rounds slt = Some (Bcrypt rounds slt s)"
| "bcrypt_hash v rounds slt = None"

fun bcrypt_compare :: "jsval \<Rightarrow> pwhash \<Rightarrow> bool option" where
  "bcrypt_compare (JStr s) h = Some (Bcrypt (cost h) (salt h) s = h)"
| "bcrypt_compare v h = None"

text \<open>
  \<^verbatim>\<open>jwt.sign({ id }, secret, { expiresIn: "1h" })\<close> at time \<open>now\<close> (seconds): throws when
  the secret is missing or empty; otherwise the token carries the id, the time of issue
  and an expiry 3600 seconds later, under the secret.
\<close>

definition jwt_sign :: "nat \<Rightarrow> string option \<Rightarrow> nat \<Rightarrow> jwt option" where
  "jwt_sign uid secret now =
     (case secret of
        None \<Rightarrow> None
      | Some k \<Rightarrow> if k = [] then None else Some (Jwt uid now (now + 3600) k))"

section \<open>controllers/authController.js\<close>

text \<open>The salt drawn by the hash is the argument \<open>slt\<close>.\<close>

definition register :: "string \<Rightarrow> store \<Rightarrow> jsval \<Rightarrow> jsval \<Rightarrow> jsval \<Rightarrow> response \<times> store" where
  "register slt db name email pass =
     (case query db (select_users_by_email email) of
        (None, db1) \<Rightarrow> (internal_server_error, db1)
      | (Some found, db1) \<Rightarrow>
          if found \<noteq> [] then (error_response 400 ''Email already registered'', db1)
          else
            (case bcrypt_hash pass 10 slt of
               None \<Rightarrow> (internal_server_error, db1)
             | Some hashedPassword \<Rightarrow>
                 (case query db1 (insert_user name email hashedPassword) of
                    (None, db2) \<Rightarrow> (internal_server_error, db2)
                  | (Some r, db2) \<Rightarrow>
                      (Response 201 (Json [(''message'', JStr ''User registered successfully'')]),
                       db2))))"

text \<open>\<open>secret\<close> is \<^verbatim>\<open>process.env.JWT_SECRET\<close>, \<open>now\<close> the clock read by the signer.\<close>

definition login :: "string option \<Rightarrow> nat \<Rightarrow> store \<Rightarrow> jsval \<Rightarrow> jsval \<Rightarrow> response \<times> store" where
  "login secret now db email pass =
     (case query db (select_users_by_email email) of
        (None, db1) \<Rightarrow> (internal_server_error, db1)
      | (Some found, db1) \<Rightarrow>
          if found = [] then (error_response 400 ''User not found'', db1)
          else
            (let u = hd found
             in case bcrypt_compare pass (user_pass u) of
                  None \<Rightarrow> (internal_server_error, db1)
                | Some isMatch \<Rightarrow>
                    if \<not> isMatch then (error_response 400 ''Invalid credentials'', db1)
                    else
                      (case jwt_sign (user_id u) secret now of
                         None \<Rightarrow> (internal_server_error, db1)
                       | Some token \<Rightarrow>
                           (Response 200 (LoginJson ''Login Success.'' token), db1))))"

section \<open>controllers/categoryController.js\<close>

text \<open>The helper \<^verbatim>\<open>categoryExists(name)\<close> of the category controller; it may throw.\<close>

definition categoryExists_name :: "store \<Rightarrow> jsval \<Rightarrow> bool option \<times> store" where
  "categoryExists_name db name =
     (case query db (select_categories_by_name name) of
        (None, db1) \<Rightarrow> (None, db1)
      | (Some result, db1) \<Rightarrow> (Some (length result > 0), db1))"

definition getCategories :: "store \<Rightarrow> response \<times> store" where
  "getCategories db =
     (case query db select_categories of
        (None, db1) \<Rightarrow> (internal_server_error, db1)
      | (Some rows, db1) \<Rightarrow> (Response 200 (JsonArray (map category_json rows)), db1))"

definition getCategoryById :: "store \<Rightarrow> string \<Rightarrow> response \<times> store" where
  "getCategoryById db idp =
     (if isNaN (JStr idp) then (error_response 400 ''Invalid category ID'', db)
      else
        (case query db (select_categories_by_id (JStr idp)) of
           (None, db1) \<Rightarrow> (internal_server_error, db1)
         | (Some found, db1) \<Rightarrow>
             if found = [] then (error_response 404 ''Category not found'', db1)
             else (Response 200 (Json (category_json (hd found))), db1)))"

definition createCategory :: "store \<Rightarrow> jsval \<Rightarrow> response \<times> store" where
  "createCategory db name =
     (if \<not> truthy name \<or> \<not> typeof_is_string name \<or> trim_length_is_zero name
      then (error_response 400 ''Category name is required and must be a non-empty string.'', db)
      else
        (case categoryExists_name db name of
           (None, db1) \<Rightarrow> (internal_server_error, db1)
         | (Some exists, db1) \<Rightarrow>
             if exists then (error_response 400 ''Category already exists'', db1)
             else
               (case query db1 (insert_category (string_of name)) of
                  (None, db2) \<Rightarrow> (internal_server_error, db2)
                | (Some insertId, db2) \<Rightarrow>
                    (Response 201
                       (Json [(''id'', JNum (Num (of_nat insertId))), (''name'', name)]),
                     db2))))"

definition updateCategory :: "store \<Rightarrow> string \<Rightarrow> jsval \<Rightarrow> response \<times> store" where
  "updateCategory db idp name =
     (if isNaN (JStr idp) then (error_response 400 ''Invalid category ID'', db)
      else if \<not> truthy name \<or> \<not> typeof_is_string name \<or> trim_length_is_zero name
      then (error_response 400 ''Category name is required and must be a non-empty string.'', db)
      else
        (case query db (select_categories_by_id (JStr idp)) of
           (None, db1) \<Rightarrow> (internal_server_error, db1)
         | (Some existingCategory, db1) \<Rightarrow>
             if existingCategory = [] then (error_response 404 ''Category not found'', db1)
             else
               (case query db1 (update_category (string_of name) (JStr idp)) of
                  (None, db2) \<Rightarrow> (internal_server_error, db2)
                | (Some affectedRows, db2) \<Rightarrow>
                    if affectedRows = 0
                    then (error_response 404 ''Category not found'', db2)
                    else (Response 200 (Json [(''id'', JStr idp), (''name'', name)]), db2))))"

definition deleteCategory :: "store \<Rightarrow> string \<Rightarrow> response \<times> store" where
  "deleteCategory db idp =
     (if isNaN (JStr idp) then (error_response 400 ''Invalid category ID'', db)
      else
        (case query db (delete_category (JStr idp)) of
           (None, db1) \<Rightarrow> (internal_server_error, db1)
         | (Some affectedRows, db1) \<Rightarrow>
             if affectedRows = 0 then (error_response 404 ''Category not found'', db1)
             else (Response 204 NoBody, db1)))"

section \<open>The product controller\<close>

text \<open>The helper \<^verbatim>\<open>categoryExists(categoryId)\<close> of the product controller; it may throw.\<close>

definition categoryExists :: "store \<Rightarrow> jsval \<Rightarrow> bool option \<times> store" where
  "categoryExists db categoryId =
     (case query db (select_categories_by_id categoryId) of
        (None, db1) \<Rightarrow> (None, db1)
      | (Some result, db1) \<Rightarrow> (Some (length result > 0), db1))"

definition getProducts :: "store \<Rightarrow> response \<times> store" where
  "getProducts db =
     (case query db select_products of
        (None, db1) \<Rightarrow> (internal_server_error, db1)
      | (Some rows, db1) \<Rightarrow> (Response 200 (JsonArray (map product_json rows)), db1))"

definition getProductById :: "store \<Rightarrow> string \<Rightarrow> response \<times> store" where
  "getProductById db idp =
     (if isNaN (JStr idp) then (error_response 400 ''Invalid product ID'', db)
      else
        (case query db (select_products_by_id (JStr idp)) of
           (None, db1) \<Rightarrow> (internal_server_error, db1)
         | (Some found, db1) \<Rightarrow>
             if found = [] then (error_response 404 ''Product not found'', db1)
             else (Response 200 (Json (product_json (hd found))), db1)))"

definition createProduct :: "store \<Rightarrow> jsval \<Rightarrow> jsval \<Rightarrow> jsval \<Rightarrow> response \<times> store" where
  "createProduct db name price category_id =
     (if \<not> truthy name \<or> \<not> typeof_is_string name \<or> trim_length_is_zero name
      then (error_response 400 ''Product name is required and must be a non-empty string.'', db)
      else if isNaN price \<or> le_zero price
      then (error_response 400 ''Product price must be a positive number.'', db)
      else if isNaN category_id
      then (error_response 400 ''Category ID must be a valid number.'', db)
      else
        (case categoryExists db category_id of
           (None, db1) \<Rightarrow> (internal_server_error, db1)
         | (Some exists, db1) \<Rightarrow>
             if \<not> exists then (error_response 400 ''Category does not exist'', db1)
             else
               (case query db1 (insert_product name price category_id) of
                  (None, db2) \<Rightarrow> (internal_server_error, db2)
                | (Some insertId, db2) \<Rightarrow>
                    (Response 201
                       (Json [(''id'', JNum (Num (of_nat insertId))), (''name'', name),
                              (''price'', price), (''category_id'', category_id)]),
                     db2))))"

text \<open>
  After the product was found, \<^verbatim>\<open>category_id && !(await categoryExists(category_id))\<close>:
  the helper is called, and may throw, only for a truthy \<open>category_id\<close>.
\<close>

definition updateProduct ::
  "store \<Rightarrow> string \<Rightarrow> jsval \<Rightarrow> jsval \<Rightarrow> jsval \<Rightarrow> response \<times> store" where
  "updateProduct db idp name price category_id =
     (if isNaN (JStr idp) then (error_response 400 ''Invalid product ID'', db)
      else if truthy name \<and> (\<not> typeof_is_string name \<or> trim_length_is_zero name)
      then (error_response 400 ''Product name must be a non-empty string.'', db)
      else if truthy price \<and> (isNaN price \<or> le_zero price)
      then (error_response 400 ''Product price must be a positive number.'', db)
      else if truthy category_id \<and> isNaN category_id
      then (error_response 400 ''Category ID must be a valid number.'', db)
      else
        (case query db (select_products_by_id (JStr idp)) of
           (None, db1) \<Rightarrow> (internal_server_error, db1)
         | (Some existingProduct, db1) \<Rightarrow>
             if existingProduct = [] then (error_response 404 ''Product not found'', db1)
             else
               (case (if truthy category_id then categoryExists db1 category_id
                      else (Some True, db1)) of
                  (None, db2) \<Rightarrow> (internal_server_error, db2)
                | (Some exists, db2) \<Rightarrow>
                    if truthy category_id \<and> \<not> exists
                    then (error_response 400 ''Category does not exist'', db2)
                    else
                      (case query db2 (update_product name price category_id (JStr idp)) of
                         (None, db3) \<Rightarrow> (internal_server_error, db3)
                       | (Some affectedRows, db3) \<Rightarrow>
                           if affectedRows = 0
                           then (error_response 404 ''Product not found'', db3)
                           else
                             (Response 200
                                (Json [(''id'', JStr idp), (''name'', name), (''price'', price),
                                       (''category_id'', category_id)]),
                              db3)))))"

definition deleteProduct :: "store \<Rightarrow> string \<Rightarrow> response \<times> store" where
  "deleteProduct db idp =
     (if isNaN (JStr idp) then (error_response 400 ''Invalid product ID'', db)
      else
        (case query db (delete_product (JStr idp)) of
           (None, db1) \<Rightarrow> (internal_server_error, db1)
         | (Some affectedRows, db1) \<Rightarrow>
             if affectedRows = 0 then (error_response 404 ''Product not found'', db1)
             else (Response 204 NoBody, db1)))"


section \<open>Identifiers as a client writes them\<close>

text \<open>The decimal digits of a row id, as they appear in a request path.\<close>

definition digit_char :: "nat \<Rightarrow> char" where
  "digit_char d = ''0123456789'' ! (d mod 10)"

fun decimal :: "nat \<Rightarrow> string" where
  "decimal n =
     (if n < 10 then [digit_char n]
      else decimal (n div 10) @ [digit_char (n mod 10)])"

declare decimal.simps [simp del]

text \<open>
  The specification's wording for an acceptable id, a well-formed positive integer:
  decimal digits only, at least one, denoting a number above zero.
\<close>

definition well_formed_positive_integer :: "string \<Rightarrow> bool" where
  "well_formed_positive_integer s = (s \<noteq> [] \<and> list_all is_digit s \<and> 0 < digits_val 0 s)"

section \<open>Stores used in examples, and the key invariant\<close>

definition empty_store :: store where
  "empty_store =
     \<lparr>available = True, issued = 0, users = [], next_user_id = 1,
      categories = [], next_category_id = 1, products = [], next_product_id = 1\<rparr>"

text \<open>One category (id 1, Shoes), one product (id 1) in it, one registered user.\<close>

definition shop_store :: store where
  "shop_store =
     \<lparr>available = True, issued = 0,
      users = [\<lparr>user_id = 1, user_name = SqlStr ''Ann'', user_email = SqlStr ''ann@example.com'',
                user_pass = Bcrypt 10 ''salt'' ''password123''\<rparr>],
      next_user_id = 2,
      categories = [\<lparr>cat_id = 1, cat_name = ''Shoes''\<rparr>], next_category_id = 2,
      products = [\<lparr>prod_id = 1, prod_name = SqlStr ''Runner'',
                   prod_price = SqlNum (Num (4999 / 100)), prod_category_id = SqlNum (Num 1)\<rparr>],
      next_product_id = 2\<rparr>"

text \<open>The auto-increment counter of the categories table lies above every key in use.\<close>

definition category_keys_below_counter :: "store \<Rightarrow> bool" where
  "category_keys_below_counter db = list_all (\<lambda>c. cat_id c < next_category_id db) (categories db)"


section \<open>Digit strings are read back as the number they denote\<close>

lemma digit_cases: "(n::nat) < 10 \<Longrightarrow> n \<in> {0, 1, 2, 3, 4, 5, 6, 7, 8, 9}"
  by auto

lemma digit_char_is_digit: "n < 10 \<Longrightarrow> is_digit (digit_char n)"
  using digit_cases[of n] by (auto simp: is_digit_def digit_char_def)

lemma digit_val_digit_char: "n < 10 \<Longrightarrow> digit_val (digit_char n) = n"
  using digit_cases[of n] by (auto simp: digit_val_def digit_char_def)

lemma decimal_digits: "list_all is_digit (decimal n)"
  by (induction n rule: decimal.induct) (subst decimal.simps, simp add: digit_char_is_digit)

lemma decimal_nonempty: "decimal n \<noteq> []"
  by (subst decimal.simps) simp

lemma digits_val_snoc: "digits_val acc (cs @ [c]) = 10 * digits_val acc cs + digit_val c"
  by (induction cs arbitrary: acc) simp_all

lemma digits_val_decimal: "digits_val 0 (decimal n) = n"
  by (induction n rule: decimal.induct) (subst decimal.simps, simp add: digits_val_snoc digit_val_digit_char)

lemma takeWhile_all: "list_all P xs \<Longrightarrow> takeWhile P xs = xs"
  by (induction xs) simp_all

lemma dropWhile_all: "list_all P xs \<Longrightarrow> dropWhile P xs = []"
  by (induction xs) simp_all

lemma scan_decimal_digits:
  assumes "list_all is_digit ds" and "ds \<noteq> []"
  shows "scan_decimal ds = Some (of_nat (digits_val 0 ds), [])"
  using assms by (simp add: scan_decimal_def takeWhile_all dropWhile_all scan_exponent_def)

lemma digit_not_space: "is_digit c \<Longrightarrow> \<not> is_space c"
  by (auto simp: is_digit_def is_space_def)

lemma digit_not_space_sql: "is_digit c \<Longrightarrow> \<not> is_space_sql c"
  by (auto simp: is_digit_def is_space_sql_def)

lemma digit_not_sign: "is_digit c \<Longrightarrow> c \<noteq> CHR ''+'' \<and> c \<noteq> CHR ''-''"
  by (auto simp: is_digit_def)

lemma digit_not_radix_mark:
  "is_digit c \<Longrightarrow> c \<noteq> CHR ''x'' \<and> c \<noteq> CHR ''X'' \<and> c \<noteq> CHR ''o'' \<and> c \<noteq> CHR ''O'' \<and> c \<noteq> CHR ''b'' \<and> c \<noteq> CHR ''B''"
  by (auto simp: is_digit_def)

lemma dropWhile_hd: "xs \<noteq> [] \<Longrightarrow> \<not> P (hd xs) \<Longrightarrow> dropWhile P xs = xs"
  by (cases xs) simp_all

lemma trim_digits:
  assumes "list_all is_digit ds"
  shows "trim ds = ds"
proof (cases "ds = []")
  case True
  then show ?thesis by (simp add: trim_def)
next
  case False
  have all: "\<forall>c\<in>set ds. \<not> is_space c"
    using assms by (auto simp: list_all_iff digit_not_space)
  from False all have a: "dropWhile is_space ds = ds"
    by (intro dropWhile_hd) simp_all
  from False all have b: "dropWhile is_space (rev ds) = rev ds"
    by (intro dropWhile_hd) (simp_all add: hd_rev)
  show ?thesis by (simp add: trim_def a b)
qed

lemma scan_radix_digits:
  assumes "list_all is_digit ds"
  shows "scan_radix ds = None"
proof (cases ds)
  case Nil
  then show ?thesis by (simp add: scan_radix_def)
next
  case (Cons c0 t)
  show ?thesis
  proof (cases t)
    case Nil
    with Cons show ?thesis by (simp add: scan_radix_def)
  next
    case (Cons c1 u)
    with assms \<open>ds = c0 # t\<close> have "is_digit c1" by simp
    from digit_not_radix_mark[OF this] show ?thesis
      by (simp add: scan_radix_def Cons \<open>ds = c0 # t\<close>)
  qed
qed

lemma digits_not_Infinity: "list_all is_digit ds \<Longrightarrow> ds \<noteq> ''Infinity''"
  by (auto simp: is_digit_def)

lemma StringToNumber_digits:
  assumes "list_all is_digit ds" and "ds \<noteq> []"
  shows "StringToNumber ds = Num (of_nat (digits_val 0 ds))"
proof -
  obtain c r where ds: "ds = c # r" using assms(2) by (cases ds) auto
  with assms(1) have c: "is_digit c" by simp
  have "StrUnsignedDecimalLiteral ds = Num (of_nat (digits_val 0 ds))"
    using assms by (simp add: StrUnsignedDecimalLiteral_def scan_decimal_digits digits_not_Infinity)
  then show ?thesis
    using assms c digit_not_sign[OF c]
    by (simp add: StringToNumber_def trim_digits scan_radix_digits ds del: digits_val.simps)
qed


lemma sql_strtod_digits:
  assumes "list_all is_digit ds" and "ds \<noteq> []"
  shows "sql_strtod ds = of_nat (digits_val 0 ds)"
proof -
  obtain c r where ds: "ds = c # r" using assms(2) by (cases ds) auto
  with assms(1) have c: "is_digit c" by simp
  have "dropWhile is_space_sql ds = ds"
    using c ds digit_not_space_sql by simp
  moreover have "sql_number_prefix ds = of_nat (digits_val 0 ds)"
    using assms by (simp add: sql_number_prefix_def scan_decimal_digits)
  ultimately show ?thesis
    using digit_not_sign[OF c] by (simp add: sql_strtod_def ds del: digits_val.simps)
qed

lemma isNaN_digits: "list_all is_digit ds \<Longrightarrow> ds \<noteq> [] \<Longrightarrow> \<not> isNaN (JStr ds)"
  by (simp add: isNaN_def StringToNumber_digits)

lemma id_matches_digits:
  "list_all is_digit ds \<Longrightarrow> ds \<noteq> [] \<Longrightarrow> id_matches (JStr ds) i = (i = digits_val 0 ds)"
  by (auto simp add: id_matches_def num_eq_def sql_strtod_digits)

lemma isNaN_decimal: "\<not> isNaN (JStr (decimal n))"
  by (simp add: isNaN_digits decimal_digits decimal_nonempty)

lemma id_matches_decimal: "id_matches (JStr (decimal n)) i = (i = n)"
  by (simp add: id_matches_digits decimal_digits decimal_nonempty digits_val_decimal)

section \<open>Facts about the gateway\<close>

lemma query_available:
  "available db \<Longrightarrow>
   query db stmt = (Some (fst (stmt (db\<lparr>issued := Suc (issued db)\<rparr>))),
                    snd (stmt (db\<lparr>issued := Suc (issued db)\<rparr>)))"
  by (simp add: query_def Let_def split: prod.splits)

lemma query_unavailable:
  "\<not> available db \<Longrightarrow> query db stmt = (None, db\<lparr>issued := Suc (issued db)\<rparr>)"
  by (simp add: query_def Let_def)

lemma filter_empty_iff_no_match: "(filter P xs = []) = (\<not> (\<exists>x\<in>set xs. P x))"
  by (simp add: filter_empty_conv)

section \<open>Products: creation checks the category\<close>

text \<open>
  C1. When the gateway answers and name, price and category_id pass the field validation
  of createProduct: if no category row has an id equal to category_id, the response is
  400 with the error "Category does not exist" and the products table is unchanged; if
  such a row exists, exactly one product row is appended and the response is 201 with a
  body that echoes the supplied category_id.
\<close>

theorem createProduct_checks_category:
  assumes "available db"
    and "truthy name" and "typeof_is_string name" and "\<not> trim_length_is_zero name"
    and "\<not> isNaN price" and "\<not> le_zero price" and "\<not> isNaN category_id"
  shows "(\<not> (\<exists>c\<in>set (categories db). id_matches category_id (cat_id c)) \<longrightarrow>
            fst (createProduct db name price category_id)
              = error_response 400 ''Category does not exist''
          \<and> products (snd (createProduct db name price category_id)) = products db)
       \<and> ((\<exists>c\<in>set (categories db). id_matches category_id (cat_id c)) \<longrightarrow>
            fst (createProduct db name price category_id)
              = Response 201 (Json [(''id'', JNum (Num (of_nat (next_product_id db)))),
                                    (''name'', name), (''price'', price),
                                    (''category_id'', category_id)])
          \<and> products (snd (createProduct db name price category_id))
              = products db @ [\<lparr>prod_id = next_product_id db, prod_name = escape name,
                                 prod_price = escape price,
                                 prod_category_id = escape category_id\<rparr>])"
  using assms
  by (simp add: createProduct_def categoryExists_def query_available
      select_categories_by_id_def insert_product_def filter_empty_iff_no_match)

theorem createProduct_checks_category_witness:
  "available shop_store
   \<and> fst (createProduct shop_store (JStr ''Trail'') (JNum (Num 60)) (JNum (Num 1)))
     = Response 201 (Json [(''id'', JNum (Num 2)), (''name'', JStr ''Trail''),
                           (''price'', JNum (Num 60)), (''category_id'', JNum (Num 1))])
   \<and> length (products (snd (createProduct shop_store (JStr ''Trail'') (JNum (Num 60))
                                (JNum (Num 1))))) = 2
   \<and> fst (createProduct shop_store (JStr ''Trail'') (JNum (Num 60)) (JNum (Num 7)))
     = error_response 400 ''Category does not exist''
   \<and> products (snd (createProduct shop_store (JStr ''Trail'') (JNum (Num 60)) (JNum (Num 7))))
     = products shop_store"
  using createProduct_checks_category [of shop_store "JStr ''Trail''" "JNum (Num 60)" "JNum (Num 1)"]
        createProduct_checks_category [of shop_store "JStr ''Trail''" "JNum (Num 60)" "JNum (Num 7)"]
  by (simp add: shop_store_def isNaN_def le_zero_def trim_def is_space_def id_matches_def num_eq_def)

lemma query_select_users_by_email:
  "available db \<Longrightarrow>
   query db (select_users_by_email email)
     = (Some (filter (\<lambda>u. sql_eq (user_email u) (escape email)) (users db)),
        db\<lparr>issued := Suc (issued db)\<rparr>)"
  by (simp add: query_available select_users_by_email_def)

lemma query_insert_user:
  "available db \<Longrightarrow>
   query db (insert_user name email hashed)
     = (Some (next_user_id db),
        db\<lparr>issued := Suc (issued db),
           users := users db @
             [\<lparr>user_id = next_user_id db, user_name = escape name,
               user_email = escape email, user_pass = hashed\<rparr>],
           next_user_id := Suc (next_user_id db)\<rparr>)"
  by (simp add: query_available insert_user_def)

lemma query_select_categories_by_id:
  "available db \<Longrightarrow>
   query db (select_categories_by_id p)
     = (Some (filter (\<lambda>c. id_matches p (cat_id c)) (categories db)),
        db\<lparr>issued := Suc (issued db)\<rparr>)"
  by (simp add: query_available select_categories_by_id_def)

lemma query_select_categories_by_name:
  "available db \<Longrightarrow>
   query db (select_categories_by_name p)
     = (Some (filter (\<lambda>c. sql_eq (SqlStr (cat_name c)) (escape p)) (categories db)),
        db\<lparr>issued := Suc (issued db)\<rparr>)"
  by (simp add: query_available select_categories_by_name_def)

lemma query_insert_category:
  "available db \<Longrightarrow>
   query db (insert_category s)
     = (Some (next_category_id db),
        db\<lparr>issued := Suc (issued db),
           categories := categories db @ [\<lparr>cat_id = next_category_id db, cat_name = s\<rparr>],
           next_category_id := Suc (next_category_id db)\<rparr>)"
  by (simp add: query_available insert_category_def)

lemma query_update_category:
  "available db \<Longrightarrow>
   query db (update_category s p)
     = (Some (length (filter (\<lambda>c. id_matches p (cat_id c)) (categories db))),
        db\<lparr>issued := Suc (issued db),
           categories :=
             map (\<lambda>c. if id_matches p (cat_id c) then c\<lparr>cat_name := s\<rparr> else c)
                 (categories db)\<rparr>)"
  by (simp add: query_available update_category_def)

lemma query_delete_category:
  "available db \<Longrightarrow>
   query db (delete_category p)
     = (Some (length (filter (\<lambda>c. id_matches p (cat_id c)) (categories db))),
        db\<lparr>issued := Suc (issued db),
           categories := filter (\<lambda>c. \<not> id_matches p (cat_id c)) (categories db)\<rparr>)"
  by (simp add: query_available delete_category_def)

lemma query_select_products_by_id:
  "available db \<Longrightarrow>
   query db (select_products_by_id p)
     = (Some (filter (\<lambda>r. id_matches p (prod_id r)) (products db)),
        db\<lparr>issued := Suc (issued db)\<rparr>)"
  by (simp add: query_available select_products_by_id_def)

lemma query_insert_product:
  "available db \<Longrightarrow>
   query db (insert_product name price category_id)
     = (Some (next_product_id db),
        db\<lparr>issued := Suc (issued db),
           products := products db @
             [\<lparr>prod_id = next_product_id db, prod_name = escape name,
               prod_price = escape price, prod_category_id = escape category_id\<rparr>],
           next_product_id := Suc (next_product_id db)\<rparr>)"
  by (simp add: query_available insert_product_def)

lemma query_update_product:
  "available db \<Longrightarrow>
   query db (update_product name price category_id p)
     = (Some (length (filter (\<lambda>r. id_matches p (prod_id r)) (products db))),
        db\<lparr>issued := Suc (issued db),
           products :=
             map (\<lambda>r. if id_matches p (prod_id r)
                      then r\<lparr>prod_name := escape name, prod_price := escape price,
                             prod_category_id := escape category_id\<rparr>
                      else r)
                 (products db)\<rparr>)"
  by (simp add: query_available update_product_def)

lemma query_delete_product:
  "available db \<Longrightarrow>
   query db (delete_product p)
     = (Some (length (filter (\<lambda>r. id_matches p (prod_id r)) (products db))),
        db\<lparr>issued := Suc (issued db),
           products := filter (\<lambda>r. \<not> id_matches p (prod_id r)) (products db)\<rparr>)"
  by (simp add: query_available delete_product_def)

lemmas query_results =
  query_select_users_by_email query_insert_user
  query_select_categories_by_id query_select_categories_by_name
  query_insert_category query_update_category query_delete_category
  query_select_products_by_id query_insert_product query_update_product query_delete_product

lemma categoryExists_available:
  "available db \<Longrightarrow>
   categoryExists db p
     = (Some (\<exists>c\<in>set (categories db). id_matches p (cat_id c)),
        db\<lparr>issued := Suc (issued db)\<rparr>)"
  by (simp add: categoryExists_def query_select_categories_by_id filter_empty_iff_no_match)

lemma categoryExists_name_available:
  "available db \<Longrightarrow>
   categoryExists_name db (JStr s)
     = (Some (\<exists>c\<in>set (categories db). cat_name c = s),
        db\<lparr>issued := Suc (issued db)\<rparr>)"
  by (simp add: categoryExists_name_def query_select_categories_by_name filter_empty_iff_no_match)

section \<open>Registration\<close>

lemma register_email_taken:
  assumes "available db" and "\<exists>u\<in>set (users db). sql_eq (user_email u) (escape email)"
  shows "register slt db name email pass
           = (error_response 400 ''Email already registered'', db\<lparr>issued := Suc (issued db)\<rparr>)"
  using assms by (simp add: register_def query_select_users_by_email filter_empty_iff_no_match)

lemma register_inserts:
  assumes "available db" and "\<not> (\<exists>u\<in>set (users db). sql_eq (user_email u) (escape email))"
  shows "register slt db name email (JStr p)
           = (Response 201 (Json [(''message'', JStr ''User registered successfully'')]),
              db\<lparr>issued := Suc (Suc (issued db)),
                 users := users db @ [\<lparr>user_id = next_user_id db, user_name = escape name,
                                 user_email = escape email, user_pass = Bcrypt 10 slt p\<rparr>],
                 next_user_id := Suc (next_user_id db)\<rparr>)"
  using assms
  by (simp add: register_def query_select_users_by_email query_insert_user
      filter_empty_iff_no_match)

lemma register_rejected_password:
  assumes "available db" and "\<not> (\<exists>u\<in>set (users db). sql_eq (user_email u) (escape email))"
    and "\<not> typeof_is_string pass"
  shows "register slt db name email pass
           = (internal_server_error, db\<lparr>issued := Suc (issued db)\<rparr>)"
  using assms
  by (cases pass)
    (simp_all add: register_def query_select_users_by_email filter_empty_iff_no_match)

text \<open>
  C2, as amended. When the gateway answers: if a user row matches the email, register
  returns 400 "Email already registered" and leaves the users table unchanged. If none
  matches and the password is a string, it is hashed at cost 10 and exactly one user row
  is appended, with status 201; if none matches and the password is not a string, the
  hash is refused, the response is 500 and no row is written. After a successful
  registration with an email that the comparison \<^verbatim>\<open>email = ?\<close> can match (any email but
  an absent or null one), a second registration with that email returns 400.
\<close>

theorem register_duplicate_or_insert:
  assumes "available db"
  shows "((\<exists>u\<in>set (users db). sql_eq (user_email u) (escape email)) \<longrightarrow>
            fst (register slt db name email pass)
              = error_response 400 ''Email already registered''
          \<and> users (snd (register slt db name email pass)) = users db)
       \<and> (\<not> (\<exists>u\<in>set (users db). sql_eq (user_email u) (escape email)) \<longrightarrow>
            (\<forall>p. pass = JStr p \<longrightarrow>
               fst (register slt db name email pass)
                 = Response 201 (Json [(''message'', JStr ''User registered successfully'')])
             \<and> users (snd (register slt db name email pass))
                 = users db @ [\<lparr>user_id = next_user_id db, user_name = escape name,
                                 user_email = escape email, user_pass = Bcrypt 10 slt p\<rparr>])
          \<and> (\<not> typeof_is_string pass \<longrightarrow>
               fst (register slt db name email pass) = internal_server_error
             \<and> users (snd (register slt db name email pass)) = users db)
          \<and> (sql_eq (escape email) (escape email) \<longrightarrow> typeof_is_string pass \<longrightarrow>
               fst (register slt2 (snd (register slt db name email pass)) name2 email pass2)
                 = error_response 400 ''Email already registered''))"
proof (intro conjI impI allI)
  assume "\<exists>u\<in>set (users db). sql_eq (user_email u) (escape email)"
  from register_email_taken[OF assms this]
  show "fst (register slt db name email pass) = error_response 400 ''Email already registered''"
    and "users (snd (register slt db name email pass)) = users db"
    by simp_all
next
  fix p
  assume "\<not> (\<exists>u\<in>set (users db). sql_eq (user_email u) (escape email))" and "pass = JStr p"
  with register_inserts[OF assms, of email slt name p]
  show "fst (register slt db name email pass)
          = Response 201 (Json [(''message'', JStr ''User registered successfully'')])"
    and "users (snd (register slt db name email pass))
          = users db @ [\<lparr>user_id = next_user_id db, user_name = escape name,
                          user_email = escape email, user_pass = Bcrypt 10 slt p\<rparr>]"
    by simp_all
next
  assume "\<not> (\<exists>u\<in>set (users db). sql_eq (user_email u) (escape email))"
    and "\<not> typeof_is_string pass"
  from register_rejected_password[OF assms this]
  show "fst (register slt db name email pass) = internal_server_error"
    and "users (snd (register slt db name email pass)) = users db"
    by simp_all
next
  assume fresh: "\<not> (\<exists>u\<in>set (users db). sql_eq (user_email u) (escape email))"
    and self: "sql_eq (escape email) (escape email)" and "typeof_is_string pass"
  then obtain p where p: "pass = JStr p" by (cases pass) simp_all
  let ?db1 = "snd (register slt db name email pass)"
  have db1: "?db1 = db\<lparr>issued := Suc (Suc (issued db)),
                 users := users db @ [\<lparr>user_id = next_user_id db, user_name = escape name,
                                 user_email = escape email, user_pass = Bcrypt 10 slt p\<rparr>],
                 next_user_id := Suc (next_user_id db)\<rparr>"
    using register_inserts[OF assms fresh, of slt name p] p by simp
  have "available ?db1" using assms db1 by simp
  moreover have "\<exists>u\<in>set (users ?db1). sql_eq (user_email u) (escape email)"
    using db1 self by simp
  ultimately show "fst (register slt2 ?db1 name2 email pass2)
                     = error_response 400 ''Email already registered''"
    using register_email_taken by simp
qed

theorem register_duplicate_or_insert_witness:
  "available empty_store
   \<and> fst (register ''salt'' empty_store (JStr ''Test User'') (JStr ''test@example.com'')
            (JStr ''password123''))
       = Response 201 (Json [(''message'', JStr ''User registered successfully'')])
   \<and> map user_pass (users (snd (register ''salt'' empty_store (JStr ''Test User'')
            (JStr ''test@example.com'') (JStr ''password123''))))
       = [Bcrypt 10 ''salt'' ''password123'']
   \<and> fst (register ''pepper''
            (snd (register ''salt'' empty_store (JStr ''Test User'') (JStr ''test@example.com'')
                    (JStr ''password123'')))
            (JStr ''Test User'') (JStr ''test@example.com'') (JStr ''password123''))
       = error_response 400 ''Email already registered''"
  using register_duplicate_or_insert [of empty_store "JStr ''test@example.com''" "''salt''"
          "JStr ''Test User''" "JStr ''password123''" "''pepper''" "JStr ''Test User''"
          "JStr ''password123''"]
  by (simp add: empty_store_def)

text \<open>
  C2 as stated fails twice. No user has the email, yet a request whose password is the
  number 12345 is answered with 500 and writes no row. And two registrations in a row with
  a null email are both answered with 201: the second is not refused.
\<close>

theorem register_counterexample:
  "fst (select_users_by_email (JStr ''bob@example.com'') empty_store) = []
   \<and> fst (register ''salt'' empty_store (JStr ''Bob'') (JStr ''bob@example.com'')
            (JNum (Num 12345)))
       = error_response 500 ''Internal server error''
   \<and> users (snd (register ''salt'' empty_store (JStr ''Bob'') (JStr ''bob@example.com'')
            (JNum (Num 12345)))) = []
   \<and> status (fst (register ''salt'' empty_store (JStr ''Bob'') JNull (JStr ''pw''))) = 201
   \<and> status (fst (register ''pepper''
                     (snd (register ''salt'' empty_store (JStr ''Bob'') JNull (JStr ''pw'')))
                     (JStr ''Bob'') JNull (JStr ''pw''))) = 201"
  by (simp add: register_def query_def select_users_by_email_def insert_user_def
      empty_store_def internal_server_error_def)

section \<open>Login\<close>

lemma login_user_not_found:
  assumes "available db"
    and "filter (\<lambda>u. sql_eq (user_email u) (escape email)) (users db) = []"
  shows "login secret now db email pass
           = (error_response 400 ''User not found'', db\<lparr>issued := Suc (issued db)\<rparr>)"
  using assms by (simp add: login_def query_select_users_by_email)

lemma login_user_found:
  assumes "available db"
    and "filter (\<lambda>u. sql_eq (user_email u) (escape email)) (users db) = u # us"
  shows "login secret now db email pass
           = (case bcrypt_compare pass (user_pass u) of
                None \<Rightarrow> internal_server_error
              | Some isMatch \<Rightarrow>
                  if \<not> isMatch then error_response 400 ''Invalid credentials''
                  else (case jwt_sign (user_id u) secret now of
                          None \<Rightarrow> internal_server_error
                        | Some token \<Rightarrow> Response 200 (LoginJson ''Login Success.'' token)),
              db\<lparr>issued := Suc (issued db)\<rparr>)"
  using assms by (simp add: login_def query_select_users_by_email split: option.splits)

text \<open>
  C3, as amended. When the gateway answers and a signing secret is configured: if no user
  row matches the email, login returns 400 "User not found"; if a user matches and the
  hash comparison of the password fails, 400 "Invalid credentials"; if it succeeds, 200
  with the message "Login Success." and a token carrying that user's id and an expiry
  3600 seconds after issue. A string password always reaches the comparison; a password
  that is not a string makes it reject, and a matching user then gets 500. The users
  table is never changed.
\<close>

theorem login_outcomes:
  assumes "available db" and "secret = Some k" and "k \<noteq> []"
  shows "(filter (\<lambda>u. sql_eq (user_email u) (escape email)) (users db) = [] \<longrightarrow>
            fst (login secret now db email pass) = error_response 400 ''User not found'')
       \<and> (\<forall>u us. filter (\<lambda>u. sql_eq (user_email u) (escape email)) (users db) = u # us \<longrightarrow>
            (bcrypt_compare pass (user_pass u) = Some False \<longrightarrow>
               fst (login secret now db email pass)
                 = error_response 400 ''Invalid credentials'')
          \<and> (bcrypt_compare pass (user_pass u) = Some True \<longrightarrow>
               fst (login secret now db email pass)
                 = Response 200 (LoginJson ''Login Success.''
                                   (Jwt (user_id u) now (now + 3600) k)))
          \<and> (typeof_is_string pass \<longrightarrow> bcrypt_compare pass (user_pass u) \<noteq> None)
          \<and> (\<not> typeof_is_string pass \<longrightarrow>
               fst (login secret now db email pass) = internal_server_error))
       \<and> users (snd (login secret now db email pass)) = users db"
proof (intro conjI impI allI)
  assume "filter (\<lambda>u. sql_eq (user_email u) (escape email)) (users db) = []"
  from login_user_not_found[OF assms(1) this]
  show "fst (login secret now db email pass) = error_response 400 ''User not found''"
    by simp
next
  fix u us
  assume "filter (\<lambda>u. sql_eq (user_email u) (escape email)) (users db) = u # us"
  note found = login_user_found[OF assms(1) this, of secret now pass]
  {
    assume "bcrypt_compare pass (user_pass u) = Some False"
    with found show "fst (login secret now db email pass)
                       = error_response 400 ''Invalid credentials''"
      by simp
  }
  {
    assume "bcrypt_compare pass (user_pass u) = Some True"
    with found assms(2,3)
    show "fst (login secret now db email pass)
            = Response 200 (LoginJson ''Login Success.'' (Jwt (user_id u) now (now + 3600) k))"
      by (simp add: jwt_sign_def)
  }
  {
    assume "typeof_is_string pass"
    then show "bcrypt_compare pass (user_pass u) \<noteq> None"
      by (cases pass) simp_all
  }
  {
    assume "\<not> typeof_is_string pass"
    then have "bcrypt_compare pass (user_pass u) = None"
      by (cases pass) simp_all
    with found show "fst (login secret now db email pass) = internal_server_error"
      by simp
  }
next
  show "users (snd (login secret now db email pass)) = users db"
  proof (cases "filter (\<lambda>u. sql_eq (user_email u) (escape email)) (users db)")
    case Nil
    from login_user_not_found[OF assms(1) this] show ?thesis by simp
  next
    case (Cons u us)
    from login_user_found[OF assms(1) this, of secret now pass] show ?thesis by simp
  qed
qed

theorem login_outcomes_witness:
  "available shop_store
   \<and> fst (login (Some ''secret'') 1000 shop_store (JStr ''ann@example.com'')
            (JStr ''password123''))
       = Response 200 (LoginJson ''Login Success.'' (Jwt 1 1000 4600 ''secret''))
   \<and> fst (login (Some ''secret'') 1000 shop_store (JStr ''ann@example.com'')
            (JStr ''wrongPassword''))
       = error_response 400 ''Invalid credentials''
   \<and> fst (login (Some ''secret'') 1000 shop_store (JStr ''nobody@example.com'')
            (JStr ''password123''))
       = error_response 400 ''User not found''"
  using login_outcomes [of shop_store "Some ''secret''" "''secret''" "JStr ''ann@example.com''"
          1000 "JStr ''password123''"]
        login_outcomes [of shop_store "Some ''secret''" "''secret''" "JStr ''ann@example.com''"
          1000 "JStr ''wrongPassword''"]
        login_outcomes [of shop_store "Some ''secret''" "''secret''" "JStr ''nobody@example.com''"
          1000 "JStr ''password123''"]
  by (simp add: shop_store_def)

text \<open>
  C3 as stated fails: for a registered email and a request without a password the
  response is none of the three outcomes, but 500.
\<close>

theorem login_counterexample:
  "fst (select_users_by_email (JStr ''ann@example.com'') shop_store) \<noteq> []
   \<and> fst (login (Some ''secret'') 1000 shop_store (JStr ''ann@example.com'') JUndefined)
       = error_response 500 ''Internal server error''"
  by (simp add: login_def query_def select_users_by_email_def shop_store_def
      internal_server_error_def)

section \<open>Products: update\<close>

lemma updateProduct_unavailable:
  assumes "\<not> available db"
  shows "status (fst (updateProduct db idp name price category_id)) \<noteq> 200"
  using assms
  by (simp add: updateProduct_def query_unavailable error_response_def
      internal_server_error_def)

lemma updateProduct_validated:
  assumes "available db" and "\<not> isNaN (JStr idp)"
    and "\<not> (truthy name \<and> (\<not> typeof_is_string name \<or> trim_length_is_zero name))"
    and "\<not> (truthy price \<and> (isNaN price \<or> le_zero price))"
    and "\<not> (truthy category_id \<and> isNaN category_id)"
  shows "updateProduct db idp name price category_id =
     (if \<not> (\<exists>r\<in>set (products db). id_matches (JStr idp) (prod_id r))
      then (error_response 404 ''Product not found'', db\<lparr>issued := Suc (issued db)\<rparr>)
      else if truthy category_id
              \<and> \<not> (\<exists>c\<in>set (categories db). id_matches category_id (cat_id c))
      then (error_response 400 ''Category does not exist'',
            db\<lparr>issued := Suc (Suc (issued db))\<rparr>)
      else (Response 200 (Json [(''id'', JStr idp), (''name'', name), (''price'', price),
                                (''category_id'', category_id)]),
            db\<lparr>issued := (if truthy category_id then 3 else 2) + issued db,
               products :=
                 map (\<lambda>r. if id_matches (JStr idp) (prod_id r)
                          then r\<lparr>prod_name := escape name, prod_price := escape price,
                                 prod_category_id := escape category_id\<rparr>
                          else r)
                     (products db)\<rparr>))"
proof (cases "\<exists>r\<in>set (products db). id_matches (JStr idp) (prod_id r)")
  case False
  with assms show ?thesis
    by (cases "truthy name"; cases "truthy price"; cases "truthy category_id";
        simp add: updateProduct_def query_select_products_by_id filter_empty_iff_no_match)
next
  case True
  then have ne: "filter (\<lambda>r. id_matches (JStr idp) (prod_id r)) (products db) \<noteq> []"
    by (simp add: filter_empty_iff_no_match)
  with assms True show ?thesis
    by (cases "truthy name"; cases "truthy price"; cases "truthy category_id";
        simp add: updateProduct_def query_select_products_by_id categoryExists_available
          query_update_product)
qed

lemma updateProduct_invalid_id:
  assumes "isNaN (JStr idp)"
  shows "updateProduct db idp name price category_id
           = (error_response 400 ''Invalid product ID'', db)"
  using assms by (simp add: updateProduct_def)

lemma updateProduct_invalid_name:
  assumes "\<not> isNaN (JStr idp)"
    and "truthy name \<and> (\<not> typeof_is_string name \<or> trim_length_is_zero name)"
  shows "updateProduct db idp name price category_id
           = (error_response 400 ''Product name must be a non-empty string.'', db)"
  using assms by (simp add: updateProduct_def)

lemma updateProduct_invalid_price:
  assumes "\<not> isNaN (JStr idp)"
    and "\<not> (truthy name \<and> (\<not> typeof_is_string name \<or> trim_length_is_zero name))"
    and "truthy price \<and> (isNaN price \<or> le_zero price)"
  shows "updateProduct db idp name price category_id
           = (error_response 400 ''Product price must be a positive number.'', db)"
  using assms by (cases "truthy name"; simp add: updateProduct_def)

lemma updateProduct_invalid_category_id:
  assumes "\<not> isNaN (JStr idp)"
    and "\<not> (truthy name \<and> (\<not> typeof_is_string name \<or> trim_length_is_zero name))"
    and "\<not> (truthy price \<and> (isNaN price \<or> le_zero price))"
    and "truthy category_id \<and> isNaN category_id"
  shows "updateProduct db idp name price category_id
           = (error_response 400 ''Category ID must be a valid number.'', db)"
  using assms by (cases "truthy name"; cases "truthy price"; simp add: updateProduct_def)

lemma updateProduct_status_200:
  assumes "status (fst (updateProduct db idp name price category_id)) = 200"
  shows "available db \<and> \<not> isNaN (JStr idp)
       \<and> \<not> (truthy name \<and> (\<not> typeof_is_string name \<or> trim_length_is_zero name))
       \<and> \<not> (truthy price \<and> (isNaN price \<or> le_zero price))
       \<and> \<not> (truthy category_id \<and> isNaN category_id)"
proof -
  have a: "available db"
    using assms updateProduct_unavailable[of db idp name price category_id] by blast
  have b: "\<not> isNaN (JStr idp)"
  proof
    assume "isNaN (JStr idp)"
    from updateProduct_invalid_id[OF this, of db name price category_id] assms
    show False by (simp add: error_response_def)
  qed
  have c: "\<not> (truthy name \<and> (\<not> typeof_is_string name \<or> trim_length_is_zero name))"
  proof
    assume "truthy name \<and> (\<not> typeof_is_string name \<or> trim_length_is_zero name)"
    from updateProduct_invalid_name[OF b this, of db price category_id] assms
    show False by (simp add: error_response_def)
  qed
  have d: "\<not> (truthy price \<and> (isNaN price \<or> le_zero price))"
  proof
    assume "truthy price \<and> (isNaN price \<or> le_zero price)"
    from updateProduct_invalid_price[OF b c this, of db category_id] assms
    show False by (simp add: error_response_def)
  qed
  have e: "\<not> (truthy category_id \<and> isNaN category_id)"
  proof
    assume "truthy category_id \<and> isNaN category_id"
    from updateProduct_invalid_category_id[OF b c d this, of db] assms
    show False by (simp add: error_response_def)
  qed
  from a b c d e show ?thesis by blast
qed

text \<open>
  C4. Whenever updateProduct answers 200, a product row matched the id, and every matching
  row has its name, price and category_id columns overwritten with the literals of the
  supplied values, whatever they are; all other rows are untouched. In particular, when
  none of the three fields is supplied, the three columns of the matching rows are NULL
  afterwards.
\<close>

theorem updateProduct_overwrites_all_columns:
  assumes "status (fst (updateProduct db idp name price category_id)) = 200"
  shows "(\<exists>r\<in>set (products db). id_matches (JStr idp) (prod_id r))
       \<and> products (snd (updateProduct db idp name price category_id))
           = map (\<lambda>r. if id_matches (JStr idp) (prod_id r)
                      then r\<lparr>prod_name := escape name, prod_price := escape price,
                             prod_category_id := escape category_id\<rparr>
                      else r)
                 (products db)
       \<and> (name = JUndefined \<and> price = JUndefined \<and> category_id = JUndefined \<longrightarrow>
            (\<forall>r\<in>set (products (snd (updateProduct db idp name price category_id))).
               id_matches (JStr idp) (prod_id r) \<longrightarrow>
               prod_name r = SqlNull \<and> prod_price r = SqlNull \<and> prod_category_id r = SqlNull))"
proof -
  note v = updateProduct_status_200[OF assms]
  have eq: "updateProduct db idp name price category_id = 
     (if \<not> (\<exists>r\<in>set (products db). id_matches (JStr idp) (prod_id r))
      then (error_response 404 ''Product not found'', db\<lparr>issued := Suc (issued db)\<rparr>)
      else if truthy category_id
              \<and> \<not> (\<exists>c\<in>set (categories db). id_matches category_id (cat_id c))
      then (error_response 400 ''Category does not exist'',
            db\<lparr>issued := Suc (Suc (issued db))\<rparr>)
      else (Response 200 (Json [(''id'', JStr idp), (''name'', name), (''price'', price),
                                (''category_id'', category_id)]),
            db\<lparr>issued := (if truthy category_id then 3 else 2) + issued db,
               products :=
                 map (\<lambda>r. if id_matches (JStr idp) (prod_id r)
                          then r\<lparr>prod_name := escape name, prod_price := escape price,
                                 prod_category_id := escape category_id\<rparr>
                          else r)
                     (products db)\<rparr>))"
    using v by (intro updateProduct_validated) blast+
  have found: "\<exists>r\<in>set (products db). id_matches (JStr idp) (prod_id r)"
    using assms unfolding eq by (auto simp: error_response_def split: if_splits)
  have cat: "\<not> (truthy category_id
              \<and> \<not> (\<exists>c\<in>set (categories db). id_matches category_id (cat_id c)))"
    using assms found unfolding eq by (auto simp: error_response_def split: if_splits)
  have written: "products (snd (updateProduct db idp name price category_id))
           = map (\<lambda>r. if id_matches (JStr idp) (prod_id r)
                      then r\<lparr>prod_name := escape name, prod_price := escape price,
                             prod_category_id := escape category_id\<rparr>
                      else r)
                 (products db)"
  proof (cases "truthy category_id")
    case True
    with cat have "\<exists>c\<in>set (categories db). id_matches category_id (cat_id c)" by blast
    with True found show ?thesis unfolding eq by simp
  next
    case False
    with found show ?thesis unfolding eq by simp
  qed
  have nulled: "\<forall>r\<in>set (products (snd (updateProduct db idp name price category_id))).
               id_matches (JStr idp) (prod_id r) \<longrightarrow>
               prod_name r = SqlNull \<and> prod_price r = SqlNull \<and> prod_category_id r = SqlNull"
    if "name = JUndefined \<and> price = JUndefined \<and> category_id = JUndefined"
    unfolding written using that by auto
  from found written nulled show ?thesis by blast
qed

theorem updateProduct_overwrites_all_columns_witness:
  "status (fst (updateProduct shop_store ''1'' JUndefined JUndefined JUndefined)) = 200
   \<and> products (snd (updateProduct shop_store ''1'' JUndefined JUndefined JUndefined))
       = [\<lparr>prod_id = 1, prod_name = SqlNull, prod_price = SqlNull, prod_category_id = SqlNull\<rparr>]"
proof -
  have m: "id_matches (JStr ''1'') 1"
    by (simp add: id_matches_digits is_digit_def digit_val_def)
  have ok: "status (fst (updateProduct shop_store ''1'' JUndefined JUndefined JUndefined)) = 200"
    using m by (simp add: updateProduct_validated isNaN_digits is_digit_def shop_store_def)
  from updateProduct_overwrites_all_columns[OF ok] m ok show ?thesis
    by (simp add: shop_store_def)
qed

lemma updateProduct_response_cases:
  "fst (updateProduct db idp name price category_id) = error_response 400 ''Invalid product ID''
   \<or> fst (updateProduct db idp name price category_id)
        = error_response 400 ''Product name must be a non-empty string.'' \<and> truthy name
   \<or> fst (updateProduct db idp name price category_id)
        = error_response 400 ''Product price must be a positive number.'' \<and> truthy price
   \<or> fst (updateProduct db idp name price category_id)
        = error_response 400 ''Category ID must be a valid number.'' \<and> truthy category_id
   \<or> fst (updateProduct db idp name price category_id) = internal_server_error
   \<or> fst (updateProduct db idp name price category_id) = error_response 404 ''Product not found''
   \<or> fst (updateProduct db idp name price category_id)
        = error_response 400 ''Category does not exist'' \<and> truthy category_id
   \<or> status (fst (updateProduct db idp name price category_id)) = 200"
proof -
  consider (ident) "isNaN (JStr idp)"
    | (name) "\<not> isNaN (JStr idp)"
        "truthy name \<and> (\<not> typeof_is_string name \<or> trim_length_is_zero name)"
    | (price) "\<not> isNaN (JStr idp)"
        "\<not> (truthy name \<and> (\<not> typeof_is_string name \<or> trim_length_is_zero name))"
        "truthy price \<and> (isNaN price \<or> le_zero price)"
    | (cat) "\<not> isNaN (JStr idp)"
        "\<not> (truthy name \<and> (\<not> typeof_is_string name \<or> trim_length_is_zero name))"
        "\<not> (truthy price \<and> (isNaN price \<or> le_zero price))"
        "truthy category_id \<and> isNaN category_id"
    | (down) "\<not> isNaN (JStr idp)"
        "\<not> (truthy name \<and> (\<not> typeof_is_string name \<or> trim_length_is_zero name))"
        "\<not> (truthy price \<and> (isNaN price \<or> le_zero price))"
        "\<not> (truthy category_id \<and> isNaN category_id)" "\<not> available db"
    | (run) "\<not> isNaN (JStr idp)"
        "\<not> (truthy name \<and> (\<not> typeof_is_string name \<or> trim_length_is_zero name))"
        "\<not> (truthy price \<and> (isNaN price \<or> le_zero price))"
        "\<not> (truthy category_id \<and> isNaN category_id)" "available db"
    by blast
  then show ?thesis
  proof cases
    case ident
    from updateProduct_invalid_id[OF ident] show ?thesis by simp
  next
    case name
    from updateProduct_invalid_name[OF name] name(2) show ?thesis by simp
  next
    case price
    from updateProduct_invalid_price[OF price] price(3) show ?thesis by simp
  next
    case cat
    from updateProduct_invalid_category_id[OF cat] cat(4) show ?thesis by simp
  next
    case down
    then have "fst (updateProduct db idp name price category_id) = internal_server_error"
      by (cases "truthy name"; cases "truthy price"; cases "truthy category_id";
          simp add: updateProduct_def query_unavailable)
    then show ?thesis by simp
  next
    case run
    show ?thesis
      unfolding updateProduct_validated[OF run(5) run(1) run(2) run(3) run(4)]
      by simp
  qed
qed

text \<open>
  C6. In updateProduct a field that is absent or falsy never triggers its validation
  error: a falsy name never yields "Product name must be a non-empty string.", a falsy
  price never yields "Product price must be a positive number.", and a falsy category_id
  yields neither "Category ID must be a valid number." nor "Category does not exist".
  With a numeric id of an existing product and the gateway answering, an update whose
  three fields are all falsy (for instance the empty name and the price 0) is answered
  with 200.
\<close>

theorem updateProduct_falsy_fields_not_validated:
  "(\<not> truthy name \<longrightarrow>
      fst (updateProduct db idp name price category_id)
        \<noteq> error_response 400 ''Product name must be a non-empty string.'')
   \<and> (\<not> truthy price \<longrightarrow>
      fst (updateProduct db idp name price category_id)
        \<noteq> error_response 400 ''Product price must be a positive number.'')
   \<and> (\<not> truthy category_id \<longrightarrow>
      fst (updateProduct db idp name price category_id)
        \<noteq> error_response 400 ''Category ID must be a valid number.''
      \<and> fst (updateProduct db idp name price category_id)
        \<noteq> error_response 400 ''Category does not exist'')
   \<and> (\<not> truthy name \<and> \<not> truthy price \<and> \<not> truthy category_id \<and> \<not> isNaN (JStr idp)
        \<and> available db \<and> (\<exists>r\<in>set (products db). id_matches (JStr idp) (prod_id r)) \<longrightarrow>
      fst (updateProduct db idp name price category_id)
        = Response 200 (Json [(''id'', JStr idp), (''name'', name), (''price'', price),
                              (''category_id'', category_id)]))"
proof (intro conjI impI)
  assume "\<not> truthy name"
  with updateProduct_response_cases[of db idp name price category_id]
  show "fst (updateProduct db idp name price category_id)
          \<noteq> error_response 400 ''Product name must be a non-empty string.''"
    by (auto simp: error_response_def internal_server_error_def)
next
  assume "\<not> truthy price"
  with updateProduct_response_cases[of db idp name price category_id]
  show "fst (updateProduct db idp name price category_id)
          \<noteq> error_response 400 ''Product price must be a positive number.''"
    by (auto simp: error_response_def internal_server_error_def)
next
  assume f: "\<not> truthy category_id"
  with updateProduct_response_cases[of db idp name price category_id]
  show "fst (updateProduct db idp name price category_id)
          \<noteq> error_response 400 ''Category ID must be a valid number.''"
    by (auto simp: error_response_def internal_server_error_def)
  from f updateProduct_response_cases[of db idp name price category_id]
  show "fst (updateProduct db idp name price category_id)
          \<noteq> error_response 400 ''Category does not exist''"
    by (auto simp: error_response_def internal_server_error_def)
next
  assume "\<not> truthy name \<and> \<not> truthy price \<and> \<not> truthy category_id \<and> \<not> isNaN (JStr idp)
        \<and> available db \<and> (\<exists>r\<in>set (products db). id_matches (JStr idp) (prod_id r))"
  then show "fst (updateProduct db idp name price category_id)
        = Response 200 (Json [(''id'', JStr idp), (''name'', name), (''price'', price),
                              (''category_id'', category_id)])"
    by (simp add: updateProduct_validated)
qed

theorem updateProduct_falsy_fields_not_validated_witness:
  "\<not> truthy (JStr []) \<and> \<not> truthy (JNum (Num 0)) \<and> \<not> truthy JUndefined
   \<and> fst (updateProduct shop_store ''1'' (JStr []) (JNum (Num 0)) JUndefined)
       = Response 200 (Json [(''id'', JStr ''1''), (''name'', JStr []),
                             (''price'', JNum (Num 0)), (''category_id'', JUndefined)])"
proof -
  have m: "id_matches (JStr ''1'') 1"
    by (simp add: id_matches_digits is_digit_def digit_val_def)
  have n: "\<not> isNaN (JStr ''1'')"
    by (simp add: isNaN_digits is_digit_def)
  from updateProduct_falsy_fields_not_validated
         [of "JStr []" shop_store "''1''" "JNum (Num 0)" JUndefined] m n
  show ?thesis by (simp add: shop_store_def)
qed

text \<open>
  C10, as amended. For an update request with a numeric id whose supplied fields pass
  field validation, when the gateway answers: if no product row matches the id and the
  supplied category_id resolves to no category row, the response is 404 "Product not
  found", and only one statement (the product lookup) has been sent to the gateway.
\<close>

theorem updateProduct_not_found_first:
  assumes "available db" and "\<not> isNaN (JStr idp)"
    and "\<not> (truthy name \<and> (\<not> typeof_is_string name \<or> trim_length_is_zero name))"
    and "\<not> (truthy price \<and> (isNaN price \<or> le_zero price))"
    and "\<not> (truthy category_id \<and> isNaN category_id)"
    and "\<not> (\<exists>r\<in>set (products db). id_matches (JStr idp) (prod_id r))"
    and "truthy category_id"
    and "\<not> (\<exists>c\<in>set (categories db). id_matches category_id (cat_id c))"
  shows "updateProduct db idp name price category_id
           = (error_response 404 ''Product not found'', db\<lparr>issued := Suc (issued db)\<rparr>)"
  using assms(6) unfolding updateProduct_validated[OF assms(1-5)] by simp

theorem updateProduct_not_found_first_witness:
  "updateProduct shop_store ''7'' (JStr ''Trail'') (JNum (Num 60)) (JNum (Num 9))
     = (error_response 404 ''Product not found'', shop_store\<lparr>issued := 1\<rparr>)"
proof -
  have m: "\<And>i. id_matches (JStr ''7'') i = (i = 7)"
    by (simp add: id_matches_digits is_digit_def digit_val_def)
  have c: "\<And>i. id_matches (JNum (Num 9)) i = (i = 9)"
    by (auto simp add: id_matches_def num_eq_def)
  have n: "\<not> isNaN (JStr ''7'')"
    by (simp add: isNaN_digits is_digit_def)
  have v: "\<not> trim_length_is_zero (JStr ''Trail'')" "\<not> isNaN (JNum (Num 60))"
    "\<not> le_zero (JNum (Num 60))" "\<not> isNaN (JNum (Num 9))"
    by (simp_all add: trim_def is_space_def isNaN_def le_zero_def)
  from updateProduct_not_found_first
         [of shop_store "''7''" "JStr ''Trail''" "JNum (Num 60)" "JNum (Num 9)"] m c n v
  show ?thesis
    by (simp add: shop_store_def)
qed

text \<open>
  C10 as stated fails: with a numeric id that matches no product and a category_id that
  resolves to no category, a name of three spaces is answered with the validation
  error 400, not with 404.
\<close>

theorem updateProduct_not_found_first_counterexample:
  "\<not> isNaN (JStr ''7'')
   \<and> fst (select_products_by_id (JStr ''7'') shop_store) = []
   \<and> truthy (JNum (Num 9))
   \<and> fst (select_categories_by_id (JNum (Num 9)) shop_store) = []
   \<and> fst (updateProduct shop_store ''7'' (JStr ''   '') JUndefined (JNum (Num 9)))
       = error_response 400 ''Product name must be a non-empty string.''"
proof -
  have m: "\<And>i. id_matches (JStr ''7'') i = (i = 7)"
    by (simp add: id_matches_digits is_digit_def digit_val_def)
  have c: "\<And>i. id_matches (JNum (Num 9)) i = (i = 9)"
    by (auto simp add: id_matches_def num_eq_def)
  have n: "\<not> isNaN (JStr ''7'')"
    by (simp add: isNaN_digits is_digit_def)
  have t: "trim_length_is_zero (JStr ''   '')"
    by (simp add: trim_def is_space_def)
  from m c n t show ?thesis
    by (simp add: updateProduct_invalid_name select_products_by_id_def
        select_categories_by_id_def shop_store_def)
qed

section \<open>Categories: lookup by id\<close>

lemma getCategoryById_invalid:
  "isNaN (JStr idp) \<Longrightarrow> getCategoryById db idp = (error_response 400 ''Invalid category ID'', db)"
  by (simp add: getCategoryById_def)

lemma getCategoryById_unavailable:
  "\<not> isNaN (JStr idp) \<Longrightarrow> \<not> available db \<Longrightarrow>
   getCategoryById db idp = (internal_server_error, db\<lparr>issued := Suc (issued db)\<rparr>)"
  by (simp add: getCategoryById_def query_unavailable)

lemma getCategoryById_available:
  "\<not> isNaN (JStr idp) \<Longrightarrow> available db \<Longrightarrow>
   getCategoryById db idp
     = (case filter (\<lambda>c. id_matches (JStr idp) (cat_id c)) (categories db) of
          [] \<Rightarrow> error_response 404 ''Category not found''
        | c # cs \<Rightarrow> Response 200 (Json (category_json c)),
        db\<lparr>issued := Suc (issued db)\<rparr>)"
  by (simp add: getCategoryById_def query_select_categories_by_id split: list.splits)

lemma well_formed_positive_integer_numeric:
  "well_formed_positive_integer s \<Longrightarrow> \<not> isNaN (JStr s)"
  by (simp add: well_formed_positive_integer_def isNaN_digits)

text \<open>
  C5, as amended. getCategoryById answers 400 exactly when the id is not numeric, that is
  when the language's conversion of the id string to a number gives NaN; the body is then
  "Invalid category ID". Every well-formed positive integer is numeric (so it is never
  answered with 400), but so are other strings. For a numeric id, when the gateway
  answers: if no row matches, the response is 404 "Category not found"; if rows match,
  the response is 200 with the first matching row.
\<close>

theorem getCategoryById_outcomes:
  "(status (fst (getCategoryById db idp)) = 400 \<longleftrightarrow> isNaN (JStr idp))
   \<and> (isNaN (JStr idp) \<longrightarrow>
        fst (getCategoryById db idp) = error_response 400 ''Invalid category ID'')
   \<and> (well_formed_positive_integer idp \<longrightarrow> \<not> isNaN (JStr idp))
   \<and> (available db \<and> \<not> isNaN (JStr idp)
        \<and> filter (\<lambda>c. id_matches (JStr idp) (cat_id c)) (categories db) = [] \<longrightarrow>
        fst (getCategoryById db idp) = error_response 404 ''Category not found'')
   \<and> (\<forall>c cs. available db \<and> \<not> isNaN (JStr idp)
        \<and> filter (\<lambda>c. id_matches (JStr idp) (cat_id c)) (categories db) = c # cs \<longrightarrow>
        fst (getCategoryById db idp) = Response 200 (Json (category_json c)))"
proof (intro conjI impI allI)
  show "status (fst (getCategoryById db idp)) = 400 \<longleftrightarrow> isNaN (JStr idp)"
  proof (cases "isNaN (JStr idp)")
    case True
    then show ?thesis by (simp add: getCategoryById_invalid error_response_def)
  next
    case False
    then show ?thesis
      by (cases "available db")
        (simp_all add: getCategoryById_available getCategoryById_unavailable
          error_response_def internal_server_error_def split: list.splits)
  qed
next
  assume "isNaN (JStr idp)"
  then show "fst (getCategoryById db idp) = error_response 400 ''Invalid category ID''"
    by (simp add: getCategoryById_invalid)
next
  assume "well_formed_positive_integer idp"
  then show "\<not> isNaN (JStr idp)" by (rule well_formed_positive_integer_numeric)
next
  assume "available db \<and> \<not> isNaN (JStr idp)
        \<and> filter (\<lambda>c. id_matches (JStr idp) (cat_id c)) (categories db) = []"
  then show "fst (getCategoryById db idp) = error_response 404 ''Category not found''"
    by (simp add: getCategoryById_available)
next
  fix c cs
  assume "available db \<and> \<not> isNaN (JStr idp)
        \<and> filter (\<lambda>c. id_matches (JStr idp) (cat_id c)) (categories db) = c # cs"
  then show "fst (getCategoryById db idp) = Response 200 (Json (category_json c))"
    by (simp add: getCategoryById_available)
qed

lemma StringToNumber_minus_5: "StringToNumber ''-5'' = Num (- 5)"
  by (simp add: StringToNumber_def trim_def is_space_def scan_radix_def
      StrUnsignedDecimalLiteral_def scan_decimal_def is_digit_def scan_exponent_def
      digit_val_def)

lemma sql_strtod_minus_5: "sql_strtod ''-5'' = - 5"
  by (simp add: sql_strtod_def is_space_sql_def sql_number_prefix_def scan_decimal_def
      is_digit_def scan_exponent_def digit_val_def)

theorem getCategoryById_outcomes_witness:
  "fst (getCategoryById shop_store ''abc'') = error_response 400 ''Invalid category ID''
   \<and> well_formed_positive_integer ''1''
   \<and> fst (getCategoryById shop_store ''1'')
       = Response 200 (Json [(''id'', JNum (Num 1)), (''name'', JStr ''Shoes'')])
   \<and> fst (getCategoryById shop_store ''2'') = error_response 404 ''Category not found''"
proof -
  have a: "isNaN (JStr ''abc'')"
    by (simp add: isNaN_def StringToNumber_def trim_def is_space_def scan_radix_def
      StrUnsignedDecimalLiteral_def scan_decimal_def is_digit_def scan_exponent_def
      digit_val_def hex_val_def)
  have w: "well_formed_positive_integer ''1''"
    by (simp add: well_formed_positive_integer_def is_digit_def digit_val_def)
  have m1: "\<And>i. id_matches (JStr ''1'') i = (i = 1)"
    by (simp add: id_matches_digits is_digit_def digit_val_def)
  have m2: "\<And>i. id_matches (JStr ''2'') i = (i = 2)"
    by (auto simp add: id_matches_digits is_digit_def digit_val_def)
  have n2: "\<not> isNaN (JStr ''2'')"
    by (simp add: isNaN_digits is_digit_def)
  from getCategoryById_outcomes [of shop_store "''abc''"]
       getCategoryById_outcomes [of shop_store "''1''"]
       getCategoryById_outcomes [of shop_store "''2''"] a w m1 m2 n2
  show ?thesis by (simp add: shop_store_def category_json_def)
qed

text \<open>
  C5 as stated fails: the id -5 is not a well-formed positive integer, yet it passes the
  id check and is answered with 404, not with 400.
\<close>

theorem getCategoryById_counterexample:
  "\<not> well_formed_positive_integer ''-5''
   \<and> fst (getCategoryById shop_store ''-5'') = error_response 404 ''Category not found''"
proof -
  have n: "\<not> isNaN (JStr ''-5'')"
    by (simp add: isNaN_def StringToNumber_minus_5)
  have m: "\<And>i. \<not> id_matches (JStr ''-5'') i"
    by (simp add: id_matches_def num_eq_def sql_strtod_minus_5)
  have w: "\<not> well_formed_positive_integer ''-5''"
    by (simp add: well_formed_positive_integer_def is_digit_def)
  from n m w show ?thesis
    by (simp add: getCategoryById_available shop_store_def)
qed

section \<open>Categories: creation\<close>

lemma valid_name_is_string:
  assumes "truthy name" and "typeof_is_string name" and "\<not> trim_length_is_zero name"
  obtains s where "name = JStr s" and "s \<noteq> []" and "trim s \<noteq> []"
  using assms by (cases name) simp_all

lemma createCategory_exists:
  assumes "available db" and "s \<noteq> []" and "trim s \<noteq> []"
    and "\<exists>c\<in>set (categories db). cat_name c = s"
  shows "createCategory db (JStr s)
           = (error_response 400 ''Category already exists'', db\<lparr>issued := Suc (issued db)\<rparr>)"
  using assms by (simp add: createCategory_def categoryExists_name_available)

lemma createCategory_fresh:
  assumes "available db" and "s \<noteq> []" and "trim s \<noteq> []"
    and "\<not> (\<exists>c\<in>set (categories db). cat_name c = s)"
  shows "createCategory db (JStr s)
           = (Response 201 (Json [(''id'', JNum (Num (of_nat (next_category_id db)))),
                                  (''name'', JStr s)]),
              db\<lparr>issued := Suc (Suc (issued db)),
                 categories := categories db @ [\<lparr>cat_id = next_category_id db, cat_name = s\<rparr>],
                 next_category_id := Suc (next_category_id db)\<rparr>)"
  using assms
  by (simp add: createCategory_def categoryExists_name_available query_insert_category)

lemma filter_below_counter:
  "list_all (\<lambda>c. cat_id c < n) cs \<Longrightarrow> filter (\<lambda>c. cat_id c = n) cs = []"
  by (induction cs) simp_all

text \<open>
  C7, as amended. When the gateway answers, the auto-increment counter lies above the keys
  in use, and the name passes the validation of createCategory (a string that is
  non-empty, also after trimming white space): if no category row carries that name,
  createCategory answers 201 with a fresh id (the counter, used by no existing row) and
  the name, and getCategoryById with the decimal digits of that id then answers 200 with a
  record of that id and exactly that name; if a row carries that exact name,
  createCategory answers 400 "Category already exists" and the categories table is
  unchanged.
\<close>

theorem createCategory_then_getCategoryById:
  assumes "available db" and "category_keys_below_counter db"
    and "truthy name" and "typeof_is_string name" and "\<not> trim_length_is_zero name"
  shows "(\<not> (\<exists>c\<in>set (categories db). JStr (cat_name c) = name) \<longrightarrow>
            fst (createCategory db name)
              = Response 201 (Json [(''id'', JNum (Num (of_nat (next_category_id db)))),
                                    (''name'', name)])
          \<and> next_category_id db \<notin> cat_id ` set (categories db)
          \<and> fst (getCategoryById (snd (createCategory db name))
                   (decimal (next_category_id db)))
              = Response 200 (Json [(''id'', JNum (Num (of_nat (next_category_id db)))),
                                    (''name'', name)]))
       \<and> ((\<exists>c\<in>set (categories db). JStr (cat_name c) = name) \<longrightarrow>
            fst (createCategory db name) = error_response 400 ''Category already exists''
          \<and> categories (snd (createCategory db name)) = categories db)"
proof -
  from assms(3-5) obtain s where s: "name = JStr s" "s \<noteq> []" "trim s \<noteq> []"
    by (rule valid_name_is_string)
  show ?thesis
  proof (intro conjI impI)
    assume fresh: "\<not> (\<exists>c\<in>set (categories db). JStr (cat_name c) = name)"
    then have fresh': "\<not> (\<exists>c\<in>set (categories db). cat_name c = s)"
      using s(1) by simp
    note run = createCategory_fresh[OF assms(1) s(2,3) fresh']
    from run s(1)
    show "fst (createCategory db name)
            = Response 201 (Json [(''id'', JNum (Num (of_nat (next_category_id db)))),
                                  (''name'', name)])"
      by simp
    from assms(2) show "next_category_id db \<notin> cat_id ` set (categories db)"
      by (auto simp: category_keys_below_counter_def list_all_iff)
    have old: "filter (\<lambda>c. cat_id c = next_category_id db) (categories db) = []"
      using assms(2) by (simp add: category_keys_below_counter_def filter_below_counter)
    show "fst (getCategoryById (snd (createCategory db name))
                   (decimal (next_category_id db)))
              = Response 200 (Json [(''id'', JNum (Num (of_nat (next_category_id db)))),
                                    (''name'', name)])"
      using assms(1) old
      by (simp add: s(1) run getCategoryById_available isNaN_decimal id_matches_decimal
          category_json_def)
  next
    assume "\<exists>c\<in>set (categories db). JStr (cat_name c) = name"
    then have "\<exists>c\<in>set (categories db). cat_name c = s"
      using s(1) by simp
    note run = createCategory_exists[OF assms(1) s(2,3) this]
    from run s(1)
    show "fst (createCategory db name) = error_response 400 ''Category already exists''"
      and "categories (snd (createCategory db name)) = categories db"
      by simp_all
  qed
qed

lemma decimal_two: "decimal 2 = ''2''"
  by (simp add: decimal.simps digit_char_def)

theorem createCategory_then_getCategoryById_witness:
  "available shop_store \<and> category_keys_below_counter shop_store
   \<and> fst (createCategory shop_store (JStr ''Balls''))
       = Response 201 (Json [(''id'', JNum (Num 2)), (''name'', JStr ''Balls'')])
   \<and> fst (getCategoryById (snd (createCategory shop_store (JStr ''Balls''))) ''2'')
       = Response 200 (Json [(''id'', JNum (Num 2)), (''name'', JStr ''Balls'')])
   \<and> fst (createCategory shop_store (JStr ''Shoes''))
       = error_response 400 ''Category already exists''
   \<and> categories (snd (createCategory shop_store (JStr ''Shoes''))) = categories shop_store"
proof -
  have t: "\<not> trim_length_is_zero (JStr ''Balls'')" "\<not> trim_length_is_zero (JStr ''Shoes'')"
    by (simp_all add: trim_def is_space_def)
  have k: "category_keys_below_counter shop_store" "available shop_store"
    "next_category_id shop_store = 2"
    "categories shop_store = [\<lparr>cat_id = 1, cat_name = ''Shoes''\<rparr>]"
    by (simp_all add: category_keys_below_counter_def shop_store_def)
  from createCategory_then_getCategoryById [of shop_store "JStr ''Balls''"]
       createCategory_then_getCategoryById [of shop_store "JStr ''Shoes''"] t k
  show ?thesis by (simp add: decimal_two)
qed

text \<open>
  C7 as stated fails: a name of three spaces is a non-empty string that no category
  carries, yet createCategory refuses it with the validation error and creates nothing.
\<close>

theorem createCategory_counterexample:
  "truthy (JStr ''   '') \<and> typeof_is_string (JStr ''   '')
   \<and> fst (select_categories_by_name (JStr ''   '') shop_store) = []
   \<and> createCategory shop_store (JStr ''   '')
       = (error_response 400 ''Category name is required and must be a non-empty string.'',
          shop_store)"
  by (simp add: createCategory_def select_categories_by_name_def shop_store_def trim_def
      is_space_def)

section \<open>Ids that are not numeric\<close>

text \<open>
  C8. For every id that is not numeric, getCategoryById, updateCategory and deleteCategory
  answer 400 "Invalid category ID", and getProductById, updateProduct and deleteProduct
  answer 400 "Invalid product ID"; the store that is returned is the store that was
  given, so no table has changed and no statement was sent (the count of issued
  statements is the same), whether or not the gateway answers.
\<close>

theorem invalid_id_rejected_without_query:
  assumes "isNaN (JStr idp)"
  shows "getCategoryById db idp = (error_response 400 ''Invalid category ID'', db)
       \<and> updateCategory db idp name = (error_response 400 ''Invalid category ID'', db)
       \<and> deleteCategory db idp = (error_response 400 ''Invalid category ID'', db)
       \<and> getProductById db idp = (error_response 400 ''Invalid product ID'', db)
       \<and> updateProduct db idp name price category_id
            = (error_response 400 ''Invalid product ID'', db)
       \<and> deleteProduct db idp = (error_response 400 ''Invalid product ID'', db)"
  using assms
  by (simp add: getCategoryById_def updateCategory_def deleteCategory_def getProductById_def
      updateProduct_def deleteProduct_def)

lemma isNaN_abc: "isNaN (JStr ''abc'')"
  by (simp add: isNaN_def StringToNumber_def trim_def is_space_def scan_radix_def
      StrUnsignedDecimalLiteral_def scan_decimal_def is_digit_def scan_exponent_def
      digit_val_def hex_val_def)

theorem invalid_id_rejected_without_query_witness:
  "isNaN (JStr ''abc'')
   \<and> getCategoryById shop_store ''abc'' = (error_response 400 ''Invalid category ID'', shop_store)
   \<and> deleteProduct shop_store ''abc'' = (error_response 400 ''Invalid product ID'', shop_store)
   \<and> issued (snd (updateProduct shop_store ''abc'' (JStr ''Trail'') JUndefined JUndefined)) = 0"
  using invalid_id_rejected_without_query [of "''abc''" shop_store "JStr ''Trail''" JUndefined
          JUndefined] isNaN_abc
  by (simp add: shop_store_def)

section \<open>Deletion\<close>

lemma deleteCategory_available:
  assumes "available db" and "\<not> isNaN (JStr idp)"
  shows "deleteCategory db idp
           = (if length (filter (\<lambda>c. id_matches (JStr idp) (cat_id c)) (categories db)) = 0
              then error_response 404 ''Category not found'' else Response 204 NoBody,
              db\<lparr>issued := Suc (issued db),
                 categories := filter (\<lambda>c. \<not> id_matches (JStr idp) (cat_id c)) (categories db)\<rparr>)"
  using assms by (simp add: deleteCategory_def query_delete_category)

lemma deleteProduct_available:
  assumes "available db" and "\<not> isNaN (JStr idp)"
  shows "deleteProduct db idp
           = (if length (filter (\<lambda>r. id_matches (JStr idp) (prod_id r)) (products db)) = 0
              then error_response 404 ''Product not found'' else Response 204 NoBody,
              db\<lparr>issued := Suc (issued db),
                 products := filter (\<lambda>r. \<not> id_matches (JStr idp) (prod_id r)) (products db)\<rparr>)"
  using assms by (simp add: deleteProduct_def query_delete_product)

lemma getProductById_available:
  "\<not> isNaN (JStr idp) \<Longrightarrow> available db \<Longrightarrow>
   getProductById db idp
     = (case filter (\<lambda>r. id_matches (JStr idp) (prod_id r)) (products db) of
          [] \<Rightarrow> error_response 404 ''Product not found''
        | r # rs \<Rightarrow> Response 200 (Json (product_json r)),
        db\<lparr>issued := Suc (issued db)\<rparr>)"
  by (simp add: getProductById_def query_select_products_by_id split: list.splits)

lemma filter_matches_after_delete: "filter P (filter (\<lambda>x. \<not> P x) xs) = []"
  by (induction xs) simp_all

text \<open>
  C9. For a numeric id, when the gateway answers, deleteCategory and deleteProduct answer
  404 exactly when the DELETE statement affected zero rows; when a row matched, the
  response is 204 without a body, the matching rows are gone, and the lookup by the same
  id on the resulting store answers 404.
\<close>

theorem delete_then_get_not_found:
  assumes "available db" and "\<not> isNaN (JStr idp)"
  shows "(status (fst (deleteCategory db idp)) = 404
            \<longleftrightarrow> length (filter (\<lambda>c. id_matches (JStr idp) (cat_id c)) (categories db)) = 0)
       \<and> ((\<exists>c\<in>set (categories db). id_matches (JStr idp) (cat_id c)) \<longrightarrow>
            fst (deleteCategory db idp) = Response 204 NoBody
          \<and> categories (snd (deleteCategory db idp))
              = filter (\<lambda>c. \<not> id_matches (JStr idp) (cat_id c)) (categories db)
          \<and> fst (getCategoryById (snd (deleteCategory db idp)) idp)
              = error_response 404 ''Category not found'')
       \<and> (status (fst (deleteProduct db idp)) = 404
            \<longleftrightarrow> length (filter (\<lambda>r. id_matches (JStr idp) (prod_id r)) (products db)) = 0)
       \<and> ((\<exists>r\<in>set (products db). id_matches (JStr idp) (prod_id r)) \<longrightarrow>
            fst (deleteProduct db idp) = Response 204 NoBody
          \<and> products (snd (deleteProduct db idp))
              = filter (\<lambda>r. \<not> id_matches (JStr idp) (prod_id r)) (products db)
          \<and> fst (getProductById (snd (deleteProduct db idp)) idp)
              = error_response 404 ''Product not found'')"
proof (intro conjI impI)
  show "status (fst (deleteCategory db idp)) = 404
          \<longleftrightarrow> length (filter (\<lambda>c. id_matches (JStr idp) (cat_id c)) (categories db)) = 0"
    by (simp add: deleteCategory_available[OF assms] error_response_def)
  show "status (fst (deleteProduct db idp)) = 404
          \<longleftrightarrow> length (filter (\<lambda>r. id_matches (JStr idp) (prod_id r)) (products db)) = 0"
    by (simp add: deleteProduct_available[OF assms] error_response_def)
next
  assume "\<exists>c\<in>set (categories db). id_matches (JStr idp) (cat_id c)"
  then have ne: "filter (\<lambda>c. id_matches (JStr idp) (cat_id c)) (categories db) \<noteq> []"
    by (simp add: filter_empty_iff_no_match)
  then show "fst (deleteCategory db idp) = Response 204 NoBody"
    and "categories (snd (deleteCategory db idp))
           = filter (\<lambda>c. \<not> id_matches (JStr idp) (cat_id c)) (categories db)"
    by (simp_all add: deleteCategory_available[OF assms])
  show "fst (getCategoryById (snd (deleteCategory db idp)) idp)
          = error_response 404 ''Category not found''"
    using assms
    by (simp add: deleteCategory_available[OF assms] getCategoryById_available
        filter_matches_after_delete)
next
  assume "\<exists>r\<in>set (products db). id_matches (JStr idp) (prod_id r)"
  then have ne: "filter (\<lambda>r. id_matches (JStr idp) (prod_id r)) (products db) \<noteq> []"
    by (simp add: filter_empty_iff_no_match)
  then show "fst (deleteProduct db idp) = Response 204 NoBody"
    and "products (snd (deleteProduct db idp))
           = filter (\<lambda>r. \<not> id_matches (JStr idp) (prod_id r)) (products db)"
    by (simp_all add: deleteProduct_available[OF assms])
  show "fst (getProductById (snd (deleteProduct db idp)) idp)
          = error_response 404 ''Product not found''"
    using assms
    by (simp add: deleteProduct_available[OF assms] getProductById_available
        filter_matches_after_delete)
qed

theorem delete_then_get_not_found_witness:
  "available shop_store \<and> \<not> isNaN (JStr ''1'')
   \<and> fst (deleteCategory shop_store ''1'') = Response 204 NoBody
   \<and> categories (snd (deleteCategory shop_store ''1'')) = []
   \<and> fst (getCategoryById (snd (deleteCategory shop_store ''1'')) ''1'')
       = error_response 404 ''Category not found''
   \<and> fst (deleteProduct shop_store ''1'') = Response 204 NoBody
   \<and> fst (getProductById (snd (deleteProduct shop_store ''1'')) ''1'')
       = error_response 404 ''Product not found''
   \<and> status (fst (deleteProduct (snd (deleteProduct shop_store ''1'')) ''1'')) = 404"
proof -
  have m: "\<And>i. id_matches (JStr ''1'') i = (i = 1)"
    by (simp add: id_matches_digits is_digit_def digit_val_def)
  have n: "\<not> isNaN (JStr ''1'')"
    by (simp add: isNaN_digits is_digit_def)
  have d: "snd (deleteProduct shop_store ''1'') = shop_store\<lparr>issued := 1, products := []\<rparr>"
    using m n by (simp add: deleteProduct_available shop_store_def)
  from delete_then_get_not_found [of shop_store "''1''"]
       delete_then_get_not_found [of "shop_store\<lparr>issued := 1, products := []\<rparr>" "''1''"] m n d
  show ?thesis by (simp add: shop_store_def)
qed

section \<open>The key invariant is established and kept\<close>

lemma category_keys_below_counter_empty: "category_keys_below_counter empty_store"
  by (simp add: category_keys_below_counter_def empty_store_def)

lemma category_keys_below_counter_createCategory:
  assumes "category_keys_below_counter db"
  shows "category_keys_below_counter (snd (createCategory db name))"
proof (cases "\<not> truthy name \<or> \<not> typeof_is_string name \<or> trim_length_is_zero name")
  case True
  with assms show ?thesis by (auto simp add: createCategory_def)
next
  case False
  then obtain s where s: "name = JStr s" "s \<noteq> []" "trim s \<noteq> []"
    by (cases name) simp_all
  show ?thesis
  proof (cases "available db")
    case up: True
    show ?thesis
    proof (cases "\<exists>c\<in>set (categories db). cat_name c = s")
      case True
      from createCategory_exists[OF up s(2,3) True] assms show ?thesis
        by (simp add: s(1) category_keys_below_counter_def)
    next
      case False
      from createCategory_fresh[OF up s(2,3) False] assms show ?thesis
        by (simp add: s(1) category_keys_below_counter_def list_all_iff less_Suc_eq)
    qed
  next
    case False
    with assms s show ?thesis
      by (simp add: createCategory_def categoryExists_name_def query_unavailable
          category_keys_below_counter_def)
  qed
qed

lemma category_keys_below_counter_updateCategory:
  assumes "category_keys_below_counter db"
  shows "category_keys_below_counter (snd (updateCategory db idp name))"
proof (cases "available db")
  case True
  with assms show ?thesis
    by (auto simp add: updateCategory_def query_select_categories_by_id query_update_category
        category_keys_below_counter_def list_all_iff)
next
  case False
  with assms show ?thesis
    by (auto simp add: updateCategory_def query_unavailable category_keys_below_counter_def)
qed

lemma category_keys_below_counter_deleteCategory:
  assumes "category_keys_below_counter db"
  shows "category_keys_below_counter (snd (deleteCategory db idp))"
proof (cases "available db")
  case True
  with assms show ?thesis
    by (auto simp add: deleteCategory_def query_delete_category
        category_keys_below_counter_def list_all_iff)
next
  case False
  with assms show ?thesis
    by (auto simp add: deleteCategory_def query_unavailable category_keys_below_counter_def)
qed

end
